theory Spec2Isabelle
  imports Main
begin

section \<open>JavaScript strings\<close>

text \<open>
  A JavaScript string is a sequence of UTF-16 code units; \<open>length\<close>, \<open>slice\<close> and
  \<open>trim\<close> work on code units. A code unit is modelled by its number. ASCII literals of
  the source are written \<open>js ''...''\<close>; the Chinese literals of the source are given by
  their code units.
\<close>

type_synonym jsstring = "nat list"

definition js :: "string \<Rightarrow> jsstring" where
  "js s = map of_char s"

text \<open>
  \<open>String.prototype.trim\<close> removes the code units of the ECMAScript classes WhiteSpace
  (TAB, VT, FF, SP, NBSP, ZWNBSP and the Unicode space separators) and LineTerminator
  (LF, CR, LS, PS) from both ends.
\<close>

definition is_whitespace :: "nat \<Rightarrow> bool" where
  "is_whitespace c \<longleftrightarrow>
     c = 9 \<or> c = 10 \<or> c = 11 \<or> c = 12 \<or> c = 13 \<or> c = 32 \<or> c = 160 \<or> c = 5760 \<or>
     (8192 \<le> c \<and> c \<le> 8202) \<or> c = 8232 \<or> c = 8233 \<or> c = 8239 \<or> c = 8287 \<or>
     c = 12288 \<or> c = 65279"

definition trim :: "jsstring \<Rightarrow> jsstring" where
  "trim s = rev (dropWhile is_whitespace (rev (dropWhile is_whitespace s)))"

text \<open>
  \<open>text.slice(start, end)\<close>: a negative index counts from the end of the string, both
  indices are clamped to the string, and the result is empty when the window is empty.
\<close>

definition slice :: "'a list \<Rightarrow> int \<Rightarrow> int \<Rightarrow> 'a list" where
  "slice text start end' =
     (let len = int (length text);
          from = (if start < 0 then max (len + start) 0 else min start len);
          to = (if end' < 0 then max (len + end') 0 else min end' len)
      in take (nat (to - from)) (drop (nat from) text))"

text \<open>\<open>xs.join(sep)\<close> on an array of strings.\<close>

fun join :: "jsstring \<Rightarrow> jsstring list \<Rightarrow> jsstring" where
  "join sep [] = []"
| "join sep [x] = x"
| "join sep (x # y # ys) = x @ sep @ join sep (y # ys)"

section \<open>Document chunker\<close>

text \<open>
  \<^verbatim>\<open>
  const NOTE_CHUNK_SIZE = 9000;
  const NOTE_CHUNK_OVERLAP = 300;

  const splitIntoChunks = (text, size = NOTE_CHUNK_SIZE, overlap = NOTE_CHUNK_OVERLAP) => {
    if (text.length <= size) return [text];
    const chunks = [];
    let start = 0;
    while (start < text.length) {
      const end = Math.min(start + size, text.length);
      const chunk = text.slice(start, end);
      chunks.push(chunk);
      if (end === text.length) break;
      start = end - overlap;
    }
    return chunks;
  };
  \<close>
  The parameters are JavaScript numbers; the model takes them as integers of either sign.
  The loop need not end (take \<open>overlap = size\<close>), so it is a partial function: \<open>None\<close>
  is a loop that never returns. One pass through the loop body either breaks with the
  final list of chunks or continues with a new window start.
\<close>

definition NOTE_CHUNK_SIZE :: int where
  "NOTE_CHUNK_SIZE = 9000"

definition NOTE_CHUNK_OVERLAP :: int where
  "NOTE_CHUNK_OVERLAP = 300"

datatype 'a iteration = Break "'a list list" | Continue int "'a list list"

definition splitIntoChunks_body ::
  "'a list \<Rightarrow> int \<Rightarrow> int \<Rightarrow> int \<Rightarrow> 'a list list \<Rightarrow> 'a iteration" where
  "splitIntoChunks_body text size' overlap start chunks =
     (let end' = min (start + size') (int (length text));
          chunk = slice text start end';
          chunks' = chunks @ [chunk]
      in if end' = int (length text) then Break chunks'
         else Continue (end' - overlap) chunks')"

partial_function (option) splitIntoChunks_loop ::
  "'a list \<Rightarrow> int \<Rightarrow> int \<Rightarrow> int \<Rightarrow> 'a list list \<Rightarrow> 'a list list option" where
  "splitIntoChunks_loop text size' overlap start chunks =
     (if start < int (length text) then
        (case splitIntoChunks_body text size' overlap start chunks of
           Break chunks' \<Rightarrow> Some chunks'
         | Continue start' chunks' \<Rightarrow> splitIntoChunks_loop text size' overlap start' chunks')
      else Some chunks)"

declare splitIntoChunks_loop.simps [code]

definition splitIntoChunks :: "'a list \<Rightarrow> int \<Rightarrow> int \<Rightarrow> 'a list list option" where
  "splitIntoChunks text size' overlap =
     (if int (length text) \<le> size' then Some [text]
      else splitIntoChunks_loop text size' overlap 0 [])"

text \<open>
  The window \<open>[a, b)\<close> of a text, for stating which indices a chunk holds.
\<close>

definition window :: "'a list \<Rightarrow> nat \<times> nat \<Rightarrow> 'a list" where
  "window text w = take (snd w - fst w) (drop (fst w) text)"

section \<open>Key store\<close>

text \<open>
  \<^verbatim>\<open>
  const STORAGE_KEY = 'siliconflow_api_key';

  export const getApiKey = (): string | null => {
    if (typeof localStorage === 'undefined') return null;
    return localStorage.getItem(STORAGE_KEY);
  };

  export const setApiKey = (key: string) => {
    if (typeof localStorage === 'undefined') return;
    if (key) {
      localStorage.setItem(STORAGE_KEY, key.trim());
    } else {
      localStorage.removeItem(STORAGE_KEY);
    }
  };

  export const hasApiKey = () => !!getApiKey();
  \<close>
  The browser's \<open>localStorage\<close> is a map from keys to strings; an environment that has no
  \<open>localStorage\<close> is \<open>None\<close>.
\<close>

type_synonym storage = "jsstring \<rightharpoonup> jsstring"

definition STORAGE_KEY :: jsstring where
  "STORAGE_KEY = js ''siliconflow_api_key''"

definition getApiKey :: "storage option \<Rightarrow> jsstring option" where
  "getApiKey localStorage =
     (case localStorage of
        None \<Rightarrow> None
      | Some items \<Rightarrow> items STORAGE_KEY)"

definition setApiKey :: "jsstring \<Rightarrow> storage option \<Rightarrow> storage option" where
  "setApiKey key localStorage =
     (case localStorage of
        None \<Rightarrow> None
      | Some items \<Rightarrow>
          if key \<noteq> [] then Some (items(STORAGE_KEY \<mapsto> trim key))
          else Some (items(STORAGE_KEY := None)))"

definition hasApiKey :: "storage option \<Rightarrow> bool" where
  "hasApiKey localStorage \<longleftrightarrow>
     (case getApiKey localStorage of None \<Rightarrow> False | Some key \<Rightarrow> key \<noteq> [])"

section \<open>JSON values\<close>

text \<open>
  The values that \<open>res.json()\<close> and \<open>JSON.parse\<close> produce. A number is given by the
  text that \<open>String\<close> makes of it (\<open>5200\<close>, \<open>0.5\<close>, \<open>1e+21\<close>), which is all the code
  can see of it; the numbers that print as \<open>0\<close> are the falsy ones. An object holds its
  own members, each key once. \<open>undefined\<close> is \<open>None\<close> of \<open>json option\<close>.
\<close>

datatype json =
    JNull
  | JBool bool
  | JNum jsstring
  | JStr jsstring
  | JArr "json list"
  | JObj "(jsstring \<times> json) list"

text \<open>
  \<open>v?.name\<close> for the member names the code reads (\<open>error\<close>, \<open>message\<close>, \<open>choices\<close>,
  \<open>content\<close>, \<open>type\<close>, \<open>text\<close>, \<open>latex\<close>, \<open>explanation\<close>): \<open>undefined\<close> on \<open>undefined\<close> and
  \<open>null\<close>, the member of an object, and \<open>undefined\<close> on every other value, none of which
  has a property of such a name.
\<close>

fun get_prop :: "json option \<Rightarrow> jsstring \<Rightarrow> json option" where
  "get_prop (Some (JObj members)) name = map_of members name"
| "get_prop _ name = None"

text \<open>\<open>v?.[0]\<close>: the first element of an array, the first character of a string, member \<open>"0"\<close> of an object.\<close>

fun index0 :: "json option \<Rightarrow> json option" where
  "index0 (Some (JArr [])) = None"
| "index0 (Some (JArr (x # xs))) = Some x"
| "index0 (Some (JStr [])) = None"
| "index0 (Some (JStr (c # cs))) = Some (JStr [c])"
| "index0 (Some (JObj members)) = map_of members (js ''0'')"
| "index0 _ = None"

fun truthy :: "json option \<Rightarrow> bool" where
  "truthy None = False"
| "truthy (Some JNull) = False"
| "truthy (Some (JBool b)) = b"
| "truthy (Some (JNum n)) = (n \<noteq> js ''0'')"
| "truthy (Some (JStr s)) = (s \<noteq> [])"
| "truthy (Some (JArr xs)) = True"
| "truthy (Some (JObj members)) = True"

text \<open>\<open>a || b\<close>\<close>

definition or_else :: "json option \<Rightarrow> json option \<Rightarrow> json option" where
  "or_else a b = (if truthy a then a else b)"

text \<open>A non-negative integer in a template literal: its decimal digits.\<close>

function decimal :: "nat \<Rightarrow> jsstring" where
  "decimal n = (if n < 10 then [48 + n] else decimal (n div 10) @ [48 + n mod 10])"
  by pat_completeness auto
termination
  by (relation "measure (\<lambda>n. n)") auto

declare decimal.simps [simp del]

text \<open>
  The errors the code throws or meets: its own \<open>MissingKeyError\<close> and \<open>Error\<close> with
  their messages, the \<open>TypeError\<close> and \<open>SyntaxError\<close> of the language and of \<open>fetch\<close>, the
  \<open>InvalidCharacterError\<close> of \<open>atob\<close> and the exceptions of pdf.js.
\<close>

datatype error =
    MissingKeyError jsstring
  | Error jsstring
  | TypeError
  | SyntaxError
  | InvalidCharacterError
  | PdfException

text \<open>
  The string that \<open>new Error(v)\<close> makes of a value. A string is itself and a number its
  text. An array is its elements joined by commas, with \<open>null\<close> as the empty string. An
  object is \<open>[object Object]\<close>, unless it has a member \<open>toString\<close> of its own: a member
  read from JSON cannot be called, the conversion goes on to \<open>valueOf\<close>, which gives no
  primitive value either, and a \<open>TypeError\<close> is thrown.
\<close>

fun toString :: "json \<Rightarrow> error + jsstring"
  and join_elements :: "json list \<Rightarrow> error + jsstring" where
  "toString JNull = Inr (js ''null'')"
| "toString (JBool b) = Inr (if b then js ''true'' else js ''false'')"
| "toString (JNum n) = Inr n"
| "toString (JStr s) = Inr s"
| "toString (JArr xs) = join_elements xs"
| "toString (JObj members) =
     (case map_of members (js ''toString'') of
        None \<Rightarrow> Inr (js ''[object Object]'')
      | Some v \<Rightarrow> Inl TypeError)"
| "join_elements [] = Inr []"
| "join_elements [x] = (if x = JNull then Inr [] else toString x)"
| "join_elements (x # y # ys) =
     (case (if x = JNull then Inr [] else toString x) of
        Inl err \<Rightarrow> Inl err
      | Inr first \<Rightarrow>
          (case join_elements (y # ys) of
             Inl err \<Rightarrow> Inl err
           | Inr others \<Rightarrow> Inr (first @ js '','' @ others)))"

section \<open>Data model\<close>

text \<open>
  \<^verbatim>\<open>
  export interface FormulaResponse { latex: string; explanation: string; }
  export interface ChatMessage { role: 'user' | 'model'; text: string; timestamp: number; }
  export interface PaperHistoryItem {
    id: string;
    type: 'note' | 'chart' | 'chat';
    fileName?: string;
    timestamp: number;
    content: string | ChatMessage[];
    sourcePreview?: string;
  }
  \<close>
  Field names that are taken in Isabelle carry a prime.
\<close>

record FormulaResponse =
  latex :: jsstring
  explanation :: jsstring

datatype chat_role = RoleUser | RoleModel

record ChatMessage =
  role :: chat_role
  text' :: jsstring
  timestamp :: nat

datatype item_type = NoteItem | ChartItem | ChatItem

datatype item_content = Note jsstring | Transcript "ChatMessage list"

record PaperHistoryItem =
  id' :: jsstring
  type' :: item_type
  fileName :: "jsstring option"
  timestamp' :: nat
  content' :: item_content
  sourcePreview :: "jsstring option"

section \<open>AI gateway\<close>

subsection \<open>Requests, responses and the world\<close>

text \<open>
  \<^verbatim>\<open>
  type ChatMessagePayload = {
    role: "system" | "user" | "assistant";
    content:
      | string
      | Array<
          | { type: "text"; text: string }
          | { type: "image_url"; image_url: { url: string } }
          | { type: "file"; file: { url: string; mime_type?: string; name?: string } }
        >;
  };
  \<close>
\<close>

datatype payload_role = System | User | Assistant

datatype part =
    TextPart jsstring
  | ImageUrlPart jsstring
  | FilePart jsstring "jsstring option" "jsstring option"

datatype payload_content = Plain jsstring | Parts "part list"

datatype ChatMessagePayload = Message payload_role payload_content

text \<open>
  What varies in the request that \<open>callSiliconChat\<close> sends: the address, the
  \<open>Authorization\<close> header, and the \<open>model\<close>, \<open>messages\<close> and options of the body. Every
  request is a POST of JSON with \<open>stream: false\<close> and \<open>temperature: 0.2\<close>.
\<close>

record request =
  url :: jsstring
  authorization :: jsstring
  req_model :: jsstring
  req_messages :: "ChatMessagePayload list"
  req_options :: "(jsstring \<times> json) list"

text \<open>
  What \<open>fetch\<close> followed by \<open>res.json()\<close> gives: the promise of \<open>fetch\<close> rejects, or
  there is a response with its \<open>ok\<close> flag, its \<open>statusText\<close> and its body read as JSON
  (\<open>None\<close> when the body is not JSON and \<open>res.json()\<close> rejects).
\<close>

datatype response = Rejected | Response bool jsstring "json option"

datatype event =
    Fetch request
  | ConsoleWarn jsstring error
  | ConsoleError jsstring error jsstring

text \<open>
  The world of a gateway call: the browser's \<open>localStorage\<close>, the answers the provider
  will give to the requests still to come (each may depend on the request; with none
  left the network is down), and the trace of what was sent and logged so far.
\<close>

record world =
  localStorage :: "storage option"
  network :: "(request \<Rightarrow> response) list"
  trace :: "event list"

definition fetch :: "request \<Rightarrow> world \<Rightarrow> response \<times> world" where
  "fetch req w =
     (case network w of
        [] \<Rightarrow> (Rejected, w\<lparr>trace := trace w @ [Fetch req]\<rparr>)
      | answer # rest \<Rightarrow> (answer req, w\<lparr>network := rest, trace := trace w @ [Fetch req]\<rparr>))"

definition console_warn :: "jsstring \<Rightarrow> error \<Rightarrow> world \<Rightarrow> world" where
  "console_warn message err w = w\<lparr>trace := trace w @ [ConsoleWarn message err]\<rparr>"

definition console_error :: "jsstring \<Rightarrow> error \<Rightarrow> jsstring \<Rightarrow> world \<Rightarrow> world" where
  "console_error message err text w = w\<lparr>trace := trace w @ [ConsoleError message err text]\<rparr>"

subsection \<open>Constants and data URLs\<close>

definition BASE_URL :: jsstring where
  "BASE_URL = js ''https://api.siliconflow.cn/v1''"

definition TEXT_MODEL :: jsstring where
  "TEXT_MODEL = js ''deepseek-ai/DeepSeek-V3.2''"

definition TEXT_FALLBACK_MODEL :: jsstring where
  "TEXT_FALLBACK_MODEL = js ''zai-org/GLM-4.6V''"

definition VISION_MODEL :: jsstring where
  "VISION_MODEL = js ''Qwen/Qwen3-VL-32B-Instruct''"

definition VISION_FALLBACK_MODEL :: jsstring where
  "VISION_FALLBACK_MODEL = js ''zai-org/GLM-4.6V''"

text \<open>
  \<^verbatim>\<open>
  const cleanBase64 = (base64) =>
    base64.replace(/^data:(image|application)\/([a-zA-Z0-9.+-]+);base64,/, "");
  const ensureDataUrl = (base64, mime) =>
    base64.startsWith("data:") ? base64 : `data:${mime};base64,${cleanBase64(base64)}`;
  const getMimeType = (base64) => {
    const match = base64.match(/^data:(image|application)\/([a-zA-Z0-9.+-]+);base64,/);
    if (match) return `${match[1]}/${match[2]}`;
    return "image/png";
  };
  \<close>
  \<open>match_data_url\<close> is the regular expression: its two groups and what follows the match.
\<close>

definition startsWith :: "jsstring \<Rightarrow> jsstring \<Rightarrow> bool" where
  "startsWith s p \<longleftrightarrow> take (length p) s = p"

definition after_prefix :: "jsstring \<Rightarrow> jsstring \<Rightarrow> jsstring option" where
  "after_prefix p s = (if startsWith s p then Some (drop (length p) s) else None)"

definition is_subtype_char :: "nat \<Rightarrow> bool" where
  "is_subtype_char c \<longleftrightarrow>
     (97 \<le> c \<and> c \<le> 122) \<or> (65 \<le> c \<and> c \<le> 90) \<or> (48 \<le> c \<and> c \<le> 57) \<or>
     c = 46 \<or> c = 43 \<or> c = 45"

definition match_data_url :: "jsstring \<Rightarrow> (jsstring \<times> jsstring \<times> jsstring) option" where
  "match_data_url s =
     (case after_prefix (js ''data:'') s of
        None \<Rightarrow> None
      | Some s1 \<Rightarrow>
          (case (case after_prefix (js ''image'') s1 of
                   Some s2 \<Rightarrow> Some (js ''image'', s2)
                 | None \<Rightarrow> map_option (Pair (js ''application'')) (after_prefix (js ''application'') s1)) of
             None \<Rightarrow> None
           | Some (kind, s2) \<Rightarrow>
               (case after_prefix (js ''/'') s2 of
                  None \<Rightarrow> None
                | Some s3 \<Rightarrow>
                    (let subtype = takeWhile is_subtype_char s3
                     in if subtype = [] then None
                        else map_option (\<lambda>rest. (kind, subtype, rest))
                               (after_prefix (js '';base64,'') (dropWhile is_subtype_char s3))))))"

definition cleanBase64 :: "jsstring \<Rightarrow> jsstring" where
  "cleanBase64 base64 =
     (case match_data_url base64 of None \<Rightarrow> base64 | Some (kind, subtype, rest) \<Rightarrow> rest)"

definition ensureDataUrl :: "jsstring \<Rightarrow> jsstring \<Rightarrow> jsstring" where
  "ensureDataUrl base64 mime =
     (if startsWith base64 (js ''data:'') then base64
      else js ''data:'' @ mime @ js '';base64,'' @ cleanBase64 base64)"

definition getMimeType :: "jsstring \<Rightarrow> jsstring" where
  "getMimeType base64 =
     (case match_data_url base64 of
        Some (kind, subtype, rest) \<Rightarrow> kind @ js ''/'' @ subtype
      | None \<Rightarrow> js ''image/png'')"

subsection \<open>The provider call and its fallback\<close>

text \<open>
  \<^verbatim>\<open>
  class MissingKeyError extends Error {}

  const ensureApiKey = () => {
    const key = getApiKey();
    if (!key) {
      throw new MissingKeyError("... SiliconFlow API Key ...");
    }
    return key;
  };
  \<close>
  The message reads: please enter the SiliconFlow API Key at the top first (it is kept
  in the local browser only).
\<close>

definition MISSING_KEY_MESSAGE :: jsstring where
  "MISSING_KEY_MESSAGE =
     [35831, 20808, 22312, 39030, 37096, 36755, 20837] @ js '' SiliconFlow API Key'' @
     [65288, 20165, 20445, 23384, 22312, 26412, 22320, 27983, 35272, 22120, 65289, 12290]"

definition ensureApiKey :: "world \<Rightarrow> error + jsstring" where
  "ensureApiKey w =
     (case getApiKey (localStorage w) of
        None \<Rightarrow> Inl (MissingKeyError MISSING_KEY_MESSAGE)
      | Some key \<Rightarrow>
          if key = [] then Inl (MissingKeyError MISSING_KEY_MESSAGE) else Inr key)"

text \<open>
  \<^verbatim>\<open>
  const callSiliconChat = async (model, messages, options = {}) => {
    const apiKey = ensureApiKey();
    const res = await fetch(`${BASE_URL}/chat/completions`, {
      method: "POST",
      headers: { "Content-Type": "application/json", Authorization: `Bearer ${apiKey}` },
      body: JSON.stringify({ model, messages, stream: false, temperature: 0.2, ...options }),
    });
    const data = await res.json();
    if (!res.ok) {
      const message = data?.error?.message || data?.message || res.statusText;
      throw new Error(message || "SiliconFlow API ...");
    }
    const content = data?.choices?.[0]?.message?.content;
    if (!content) {
      throw new Error("...");
    }
    let text: string;
    if (Array.isArray(content)) {
      const textPart = content.find((c: any) => c?.type === "text");
      text = textPart?.text || "";
    } else {
      text = content as string;
    }
    if (!text.trim()) {
      throw new Error("...");
    }
    return text;
  };
  \<close>
  The three messages read: the SiliconFlow API request failed; the model returned no
  content; the model's answer is empty, retry later or check the size and format of the
  file. \<open>read_completion\<close> is the part of the function after \<open>await fetch\<close>. A \<open>text\<close>
  that is not a string has no \<open>trim\<close> to call, which throws a \<open>TypeError\<close>. The argument
  of \<open>new Error\<close> in the first branch is never \<open>undefined\<close>: its last alternative is a
  literal that is not empty.
\<close>

definition REQUEST_FAILED_MESSAGE :: jsstring where
  "REQUEST_FAILED_MESSAGE =
     js ''SiliconFlow API '' @ [35831, 27714, 22833, 36133]"

definition NO_CONTENT_MESSAGE :: jsstring where
  "NO_CONTENT_MESSAGE =
     [27169, 22411, 26410, 36820, 22238, 20869, 23481]"

definition EMPTY_ANSWER_MESSAGE :: jsstring where
  "EMPTY_ANSWER_MESSAGE =
     [27169, 22411, 36820, 22238, 20026, 31354, 65292, 35831, 31245, 21518, 37325, 35797,
     25110, 26816, 26597, 25991, 20214, 22823, 23567] @ js ''/'' @ [26684, 24335]"

definition read_completion :: "response \<Rightarrow> error + jsstring" where
  "read_completion res =
     (case res of
        Rejected \<Rightarrow> Inl TypeError
      | Response ok statusText None \<Rightarrow> Inl SyntaxError
      | Response ok statusText (Some data') \<Rightarrow>
          (let data = Some data' in
           if \<not> ok then
             (let message = or_else (or_else (get_prop (get_prop data (js ''error'')) (js ''message''))
                                            (get_prop data (js ''message'')))
                                   (Some (JStr statusText))
              in case or_else message (Some (JStr REQUEST_FAILED_MESSAGE)) of
                   None \<Rightarrow> Inl (Error [])
                 | Some v \<Rightarrow>
                     (case toString v of
                        Inl err \<Rightarrow> Inl err
                      | Inr text \<Rightarrow> Inl (Error text)))
           else
             (let content = get_prop (get_prop (index0 (get_prop data (js ''choices''))) (js ''message''))
                                 (js ''content'')
              in if \<not> truthy content then Inl (Error NO_CONTENT_MESSAGE)
                 else
                   (let text =
                      (case content of
                         Some (JArr parts) \<Rightarrow>
                           (let textPart = find (\<lambda>c. get_prop (Some c) (js ''type'') = Some (JStr (js ''text''))) parts
                            in or_else (get_prop textPart (js ''text'')) (Some (JStr [])))
                       | _ \<Rightarrow> content)
                    in case text of
                         Some (JStr s) \<Rightarrow>
                           if trim s = [] then Inl (Error EMPTY_ANSWER_MESSAGE) else Inr s
                       | _ \<Rightarrow> Inl TypeError))))"

definition callSiliconChat ::
  "jsstring \<Rightarrow> ChatMessagePayload list \<Rightarrow> (jsstring \<times> json) list \<Rightarrow> world \<Rightarrow>
   (error + jsstring) \<times> world" where
  "callSiliconChat model messages options w =
     (case ensureApiKey w of
        Inl err \<Rightarrow> (Inl err, w)
      | Inr apiKey \<Rightarrow>
          (case fetch \<lparr>url = BASE_URL @ js ''/chat/completions'',
                       authorization = js ''Bearer '' @ apiKey,
                       req_model = model, req_messages = messages, req_options = options\<rparr> w of
             (res, w') \<Rightarrow> (read_completion res, w')))"

text \<open>
  \<^verbatim>\<open>
  const callWithFallback = async (primaryModel, fallbackModel, messages, options = {}) => {
    try {
      return await callSiliconChat(primaryModel, messages, options);
    } catch (err) {
      console.warn(`${primaryModel} ... ${fallbackModel}`, err);
      return await callSiliconChat(fallbackModel, messages, options);
    }
  };
  \<close>
  The warning reads: the call of the primary model failed, trying the fallback model.
\<close>

definition FALLBACK_WARNING :: jsstring where
  "FALLBACK_WARNING =
     js '' '' @ [35843, 29992, 22833, 36133, 65292, 23581, 35797, 22791, 29992, 27169,
     22411] @ js '' ''"

definition callWithFallback ::
  "jsstring \<Rightarrow> jsstring \<Rightarrow> ChatMessagePayload list \<Rightarrow> (jsstring \<times> json) list \<Rightarrow> world \<Rightarrow>
   (error + jsstring) \<times> world" where
  "callWithFallback primaryModel fallbackModel messages options w =
     (case callSiliconChat primaryModel messages options w of
        (Inr text, w') \<Rightarrow> (Inr text, w')
      | (Inl err, w') \<Rightarrow>
          callSiliconChat fallbackModel messages options
            (console_warn (primaryModel @ FALLBACK_WARNING @ fallbackModel) err w'))"

subsection \<open>Formula extraction\<close>

text \<open>
  \<^verbatim>\<open>
  const parseFormulaJson = (text: string): FormulaResponse => {
    try {
      const parsed = JSON.parse(text);
      return {
        latex: parsed.latex?.trim?.() || "",
        explanation: parsed.explanation?.trim?.() || "",
      };
    } catch (err) {
      console.error("...", err, text);
      throw new Error("...");
    }
  };
  \<close>
  The logged message reads: parsing the formula JSON failed; the thrown one: the AI
  returned an unexpected format, please retry. \<open>JSON.parse\<close> belongs to the platform and
  is a parameter: it gives the parsed value, or \<open>None\<close> where it throws a \<open>SyntaxError\<close>.

  \<open>trimmed_member parsed name\<close> is \<open>parsed.name?.trim?.() || ""\<close>. Reading a member of
  \<open>null\<close> throws; a string member is trimmed; a member without a \<open>trim\<close> of its own
  (absent, \<open>null\<close>, a number, a boolean, an array, an object with no or a \<open>null\<close> member
  \<open>trim\<close>) gives the empty string; an object whose member \<open>trim\<close> is some other value
  throws, because that value cannot be called.
\<close>

definition PARSE_FAILED_MESSAGE :: jsstring where
  "PARSE_FAILED_MESSAGE =
     [35299, 26512, 20844, 24335] @ js '' JSON '' @ [22833, 36133]"

definition UNEXPECTED_FORMAT_MESSAGE :: jsstring where
  "UNEXPECTED_FORMAT_MESSAGE =
     js ''AI '' @ [36820, 22238, 26684, 24335, 24322, 24120, 65292, 35831, 37325, 35797]"

definition trimmed_member :: "json \<Rightarrow> jsstring \<Rightarrow> error + jsstring" where
  "trimmed_member parsed name =
     (if parsed = JNull then Inl TypeError
      else
        (case get_prop (Some parsed) name of
           Some (JStr s) \<Rightarrow> Inr (trim s)
         | Some (JObj members) \<Rightarrow>
             (case map_of members (js ''trim'') of
                None \<Rightarrow> Inr []
              | Some v \<Rightarrow> if v = JNull then Inr [] else Inl TypeError)
         | _ \<Rightarrow> Inr []))"

definition parseFormulaJson ::
  "(jsstring \<Rightarrow> json option) \<Rightarrow> jsstring \<Rightarrow> world \<Rightarrow> (error + FormulaResponse) \<times> world" where
  "parseFormulaJson JSON_parse text w =
     (case (case JSON_parse text of
              None \<Rightarrow> Inl SyntaxError
            | Some parsed \<Rightarrow>
                (case trimmed_member parsed (js ''latex'') of
                   Inl err \<Rightarrow> Inl err
                 | Inr latex_text \<Rightarrow>
                     (case trimmed_member parsed (js ''explanation'') of
                        Inl err \<Rightarrow> Inl err
                      | Inr explanation_text \<Rightarrow>
                          Inr \<lparr>latex = latex_text, explanation = explanation_text\<rparr>))) of
        Inr result \<Rightarrow> (Inr result, w)
      | Inl err \<Rightarrow>
          (Inl (Error UNEXPECTED_FORMAT_MESSAGE), console_error PARSE_FAILED_MESSAGE err text w))"

text \<open>
  \<^verbatim>\<open>
  export const analyzeImage = async (base64Image: string): Promise<FormulaResponse> => {
    const imageUrl = ensureDataUrl(base64Image, getMimeType(base64Image));
    const messages: ChatMessagePayload[] = [
      { role: "system", content: "..." },
      { role: "user",
        content: [
          { type: "text", text: "..." },
          { type: "image_url", image_url: { url: imageUrl } },
        ] },
    ];
    const text = await callWithFallback(VISION_MODEL, VISION_FALLBACK_MODEL, messages, {
      response_format: { type: "json_object" },
    });
    return parseFormulaJson(text);
  };
  \<close>
\<close>

definition IMAGE_SYSTEM_PROMPT :: jsstring where
  "IMAGE_SYSTEM_PROMPT =
     [20320, 26159, 25968, 23398, 20844, 24335, 35782, 21035, 19982, 35762, 35299, 21161,
     25163, 65292, 36820, 22238] @ js '' JSON'' @ [65292, 23383, 27573] @ js '' latex'' @
     [65288, 20351, 29992] @ js '' $$ '' @ [21253, 35065, 30340] @ js '' LaTeX'' @ [65289,
     21644] @ js '' explanation'' @ [65288, 31616, 20307, 20013, 25991, 35299, 37322, 65289
     , 12290]"

definition IMAGE_USER_PROMPT :: jsstring where
  "IMAGE_USER_PROMPT =
     [35831, 25552, 21462, 22270, 20013, 30340, 25968, 23398, 20844, 24335, 65292, 20005,
     26684, 36755, 20986] @ js '' JSON '' @ [26684, 24335, 12290]"

definition analyzeImage ::
  "(jsstring \<Rightarrow> json option) \<Rightarrow> jsstring \<Rightarrow> world \<Rightarrow> (error + FormulaResponse) \<times> world" where
  "analyzeImage JSON_parse base64Image w =
     (let imageUrl = ensureDataUrl base64Image (getMimeType base64Image);
          messages =
            [Message System (Plain IMAGE_SYSTEM_PROMPT),
             Message User (Parts [TextPart IMAGE_USER_PROMPT, ImageUrlPart imageUrl])]
      in case callWithFallback VISION_MODEL VISION_FALLBACK_MODEL messages
                [(js ''response_format'', JObj [(js ''type'', JStr (js ''json_object''))])] w of
           (Inl err, w') \<Rightarrow> (Inl err, w')
         | (Inr text, w') \<Rightarrow> parseFormulaJson JSON_parse text w')"

subsection \<open>Paper notes\<close>

text \<open>
  \<^verbatim>\<open>
  export const analyzePaper = async (pdfText: string, title?: string): Promise<string> => {
    const chunks = splitIntoChunks(pdfText);
    // Process each chunk sequentially to respect rate limits and preserve order
    const partialNotes: string[] = [];
    for (let i = 0; i < chunks.length; i++) {
      const chunk = chunks[i];
      const messages: ChatMessagePayload[] = [
        { role: "system", content: "..." + "..." },
        { role: "user",
          content: [
            { type: "text",
              text: `...: ${title || "..."}\n` +
                    `... ${i + 1}/${chunks.length} ...\n` +
                    "...\n\n" +
                    chunk },
          ] },
      ];
      const note = await callWithFallback(TEXT_MODEL, TEXT_FALLBACK_MODEL, messages, {
        max_tokens: 5200,
      });
      partialNotes.push(`## ... ${i + 1}\n${note.trim()}`);
    }
    return `# ...\n${partialNotes.join("\n\n")}`;
  };
  \<close>
  The user text gives the title of the paper (or "untitled paper"), says that what
  follows is part \<open>i + 1\<close> of \<open>chunks.length\<close> of the plain text of the PDF, and asks for
  notes on this part only. Each partial note is headed "part \<open>i + 1\<close>"; the whole is
  headed "close-reading notes (complete, not truncated)".
\<close>

definition PAPER_SYSTEM_PROMPT :: jsstring where
  "PAPER_SYSTEM_PROMPT =
     [20320, 26159, 19968, 21517, 23398, 26415, 31934, 35835, 21161, 25163, 65292, 35831,
     36755, 20986, 32467, 26500, 21270, 30340] @ js '' Markdown '' @ [31934, 35835, 31508,
     35760, 65288, 31616, 20307, 20013, 25991, 65289, 12290, 20445, 25345, 21407, 26377,
     31456, 33410] @ js ''/'' @ [23567, 33410, 39034, 24207, 65292, 37325, 28857, 26631,
     20986, 20844, 24335, 65288, 29992] @ js '' $$ '' @ [21253, 35065] @ js '' LaTeX'' @
     [65289, 19982, 32467, 35770, 65292, 21247, 36951, 28431, 26412, 27573, 20869, 23481,
     12290]"

definition TITLE_LABEL :: jsstring where
  "TITLE_LABEL =
     [35770, 25991, 26631, 39064] @ js '': ''"

definition UNTITLED :: jsstring where
  "UNTITLED =
     [26410, 21629, 21517, 35770, 25991]"

definition PART_INTRO :: jsstring where
  "PART_INTRO =
     [20197, 19979, 26159, 31532] @ js '' ''"

definition PART_INTRO_END :: jsstring where
  "PART_INTRO_END =
     js '' '' @ [27573, 30340] @ js '' PDF '' @ [32431, 25991, 26412, 65288, 21253, 21547,
     23569, 37327, 19978, 19979, 25991, 37325, 21472, 65289, 12290] @ js ''\<newline>''"

definition PART_REQUEST :: jsstring where
  "PART_REQUEST =
     [35831, 20165, 22522, 20110, 36825, 27573, 20869, 23481, 29983, 25104, 31934, 35835,
     31508, 35760, 65292, 24182, 20445, 30041, 23545, 24212, 30340, 23567, 26631, 39064] @
     js ''/'' @ [24207, 21495, 65292, 21247, 31548, 32479, 27010, 25324, 20854, 20182, 27573
     , 33853, 12290] @ js ''\<newline>\<newline>''"

definition PART_HEADING :: jsstring where
  "PART_HEADING =
     js ''## '' @ [37096, 20998] @ js '' ''"

definition NOTES_HEADING :: jsstring where
  "NOTES_HEADING =
     js ''# '' @ [31934, 35835, 31508, 35760, 65288, 23436, 25972, 26080, 25130, 26029,
     65289] @ js ''\<newline>''"

text \<open>\<open>title || "..."\<close> for an optional title.\<close>

definition title_or_untitled :: "jsstring option \<Rightarrow> jsstring" where
  "title_or_untitled title =
     (case title of None \<Rightarrow> UNTITLED | Some t \<Rightarrow> if t = [] then UNTITLED else t)"

definition paper_messages :: "jsstring option \<Rightarrow> nat \<Rightarrow> nat \<Rightarrow> jsstring \<Rightarrow> ChatMessagePayload list" where
  "paper_messages title i n chunk =
     [Message System (Plain PAPER_SYSTEM_PROMPT),
      Message User (Parts [TextPart
        (TITLE_LABEL @ title_or_untitled title @ js ''\<newline>'' @
         PART_INTRO @ decimal (i + 1) @ js ''/'' @ decimal n @ PART_INTRO_END @
         PART_REQUEST @
         chunk)])]"

function analyzePaper_loop ::
  "jsstring option \<Rightarrow> jsstring list \<Rightarrow> nat \<Rightarrow> jsstring list \<Rightarrow> world \<Rightarrow>
   (error + jsstring list) \<times> world" where
  "analyzePaper_loop title chunks i partialNotes w =
     (if i < length chunks then
        (let chunk = chunks ! i;
             messages = paper_messages title i (length chunks) chunk
         in case callWithFallback TEXT_MODEL TEXT_FALLBACK_MODEL messages
                   [(js ''max_tokens'', JNum (js ''5200''))] w of
              (Inl err, w') \<Rightarrow> (Inl err, w')
            | (Inr note, w') \<Rightarrow>
                analyzePaper_loop title chunks (i + 1)
                  (partialNotes @ [PART_HEADING @ decimal (i + 1) @ js ''\<newline>'' @ trim note]) w')
      else (Inr partialNotes, w))"
  by pat_completeness auto
termination
  by (relation "measure (\<lambda>(title, chunks, i, partialNotes, w). length chunks - i)") auto

declare analyzePaper_loop.simps [simp del]

text \<open>\<open>None\<close> is a call whose chunker never returns.\<close>

definition analyzePaper ::
  "jsstring \<Rightarrow> jsstring option \<Rightarrow> world \<Rightarrow> ((error + jsstring) \<times> world) option" where
  "analyzePaper pdfText title w =
     (case splitIntoChunks pdfText NOTE_CHUNK_SIZE NOTE_CHUNK_OVERLAP of
        None \<Rightarrow> None
      | Some chunks \<Rightarrow>
          Some (case analyzePaper_loop title chunks 0 [] w of
                  (Inl err, w') \<Rightarrow> (Inl err, w')
                | (Inr partialNotes, w') \<Rightarrow>
                    (Inr (NOTES_HEADING @ join (js ''\<newline>\<newline>'') partialNotes), w')))"

text \<open>
  The specification's words for the calls of paper note generation, to compare the loop
  with: the gateway is invoked once for each chunk's messages, strictly in the order of
  the chunks, each call starting in the world the previous one has left; the first call
  that fails ends the run with its error, and no note is returned.
\<close>

fun calls_in_order ::
  "ChatMessagePayload list list \<Rightarrow> world \<Rightarrow> (error + jsstring list) \<times> world" where
  "calls_in_order [] w = (Inr [], w)"
| "calls_in_order (messages # later) w =
     (case callWithFallback TEXT_MODEL TEXT_FALLBACK_MODEL messages [(js ''max_tokens'', JNum (js ''5200''))] w of
        (Inl err, w') \<Rightarrow> (Inl err, w')
      | (Inr answer, w') \<Rightarrow>
          (case calls_in_order later w' of
             (Inl err, w'') \<Rightarrow> (Inl err, w'')
           | (Inr answers, w'') \<Rightarrow> (Inr (answer # answers), w'')))"

text \<open>The messages of the requests of a trace that went to a given model, in the order sent.\<close>

fun requests_to :: "jsstring \<Rightarrow> event list \<Rightarrow> ChatMessagePayload list list" where
  "requests_to m [] = []"
| "requests_to m (Fetch req # events) =
     (if req_model req = m then req_messages req # requests_to m events
      else requests_to m events)"
| "requests_to m (event # events) = requests_to m events"

subsection \<open>Chart analysis\<close>

text \<open>
  \<^verbatim>\<open>
  export const analyzeChart = async (base64Image: string): Promise<string> => {
    const imageUrl = ensureDataUrl(base64Image, getMimeType(base64Image));
    const messages: ChatMessagePayload[] = [
      { role: "system", content: "..." },
      { role: "user",
        content: [
          { type: "text", text: "..." },
          { type: "image_url", image_url: { url: imageUrl } },
        ] },
    ];
    return callWithFallback(VISION_MODEL, VISION_FALLBACK_MODEL, messages, { max_tokens: 1200 });
  };
  \<close>
\<close>

definition CHART_SYSTEM_PROMPT :: jsstring where
  "CHART_SYSTEM_PROMPT =
     [20320, 26159, 31185, 30740, 22270, 34920, 35299, 26512, 21161, 25163, 65292, 20351,
     29992] @ js '' Markdown '' @ [20013, 25991, 22238, 31572, 12290]"

definition CHART_USER_PROMPT :: jsstring where
  "CHART_USER_PROMPT =
     [35831, 35299, 26512, 36825, 24352, 22270, 34920, 65306] @ js ''1) '' @ [25551, 36848,
     20869, 23481, 65307] @ js ''2) '' @ [35299, 37322, 22352, 26631] @ js ''/'' @ [22270,
     20363, 65307] @ js ''3) '' @ [27010, 25324, 36235, 21183, 19982, 24322, 24120, 65307]
     @ js ''4) '' @ [32473, 20986, 32467, 35770, 12290]"

definition analyzeChart :: "jsstring \<Rightarrow> world \<Rightarrow> (error + jsstring) \<times> world" where
  "analyzeChart base64Image w =
     (let imageUrl = ensureDataUrl base64Image (getMimeType base64Image);
          messages =
            [Message System (Plain CHART_SYSTEM_PROMPT),
             Message User (Parts [TextPart CHART_USER_PROMPT, ImageUrlPart imageUrl])]
      in callWithFallback VISION_MODEL VISION_FALLBACK_MODEL messages
           [(js ''max_tokens'', JNum (js ''1200''))] w)"

subsection \<open>Chat\<close>

text \<open>
  \<^verbatim>\<open>
  export const chatWithPaper = async (paperText, history, newMessage, title?) => {
    if (!paperText?.trim()) {
      throw new Error("...");
    }
    const truncated = paperText.length > 12000
      ? paperText.slice(0, 12000) + "\n\n[...]" : paperText;
    const historyText = history
      .map((m) => `${m.role === "user" ? "..." : "..."}: ${m.text}`)
      .join("\n");
    const messages: ChatMessagePayload[] = [
      { role: "system", content: "..." },
      { role: "user",
        content: [
          { type: "text",
            text: `...: ${title || "..."}\n` +
                  `...:\n${truncated}\n\n` +
                  `...:\n${historyText}\n\n` +
                  `...: ${newMessage}` },
        ] },
    ];
    return callWithFallback(TEXT_MODEL, TEXT_FALLBACK_MODEL, messages, { max_tokens: 800 });
  };
  \<close>
  The error reads: the text of the PDF is empty, no answer is possible, please upload the
  file again. The mark after a truncated text reads: content truncated, the rest is
  left out.
\<close>

definition EMPTY_PDF_TEXT_MESSAGE :: jsstring where
  "EMPTY_PDF_TEXT_MESSAGE =
     js ''PDF '' @ [25991, 26412, 20026, 31354, 65292, 26080, 27861, 22238, 31572, 65292,
     35831, 37325, 26032, 19978, 20256, 25991, 20214, 12290]"

definition TRUNCATION_MARK :: jsstring where
  "TRUNCATION_MARK =
     js ''\<newline>\<newline>['' @ [20869, 23481, 25130, 26029, 65292, 21518, 32493, 30053]
     @ js '']''"

definition USER_LABEL :: jsstring where
  "USER_LABEL =
     [29992, 25143]"

definition ASSISTANT_LABEL :: jsstring where
  "ASSISTANT_LABEL =
     [21161, 25163]"

definition CHAT_SYSTEM_PROMPT :: jsstring where
  "CHAT_SYSTEM_PROMPT =
     [20320, 26159, 23398, 26415, 35770, 25991, 38382, 31572, 21161, 25163, 65292, 35831,
     32467, 21512, 32473, 23450, 35770, 25991, 25991, 26412, 65292, 29992, 31616, 20307,
     20013, 25991, 31616, 27905, 20316, 31572, 12290]"

definition PAPER_CONTENT_LABEL :: jsstring where
  "PAPER_CONTENT_LABEL =
     [35770, 25991, 20869, 23481, 65288, 25130, 26029, 21487, 33021, 23384, 22312, 65289] @
     js '':\<newline>''"

definition CHAT_HISTORY_LABEL :: jsstring where
  "CHAT_HISTORY_LABEL =
     [21382, 21490, 23545, 35805] @ js '':\<newline>''"

definition NEW_QUESTION_LABEL :: jsstring where
  "NEW_QUESTION_LABEL =
     [26032, 38382, 39064] @ js '': ''"

definition chatWithPaper ::
  "jsstring \<Rightarrow> ChatMessage list \<Rightarrow> jsstring \<Rightarrow> jsstring option \<Rightarrow> world \<Rightarrow>
   (error + jsstring) \<times> world" where
  "chatWithPaper paperText history newMessage title w =
     (if trim paperText = [] then (Inl (Error EMPTY_PDF_TEXT_MESSAGE), w)
      else
        (let truncated =
               (if length paperText > 12000 then slice paperText 0 12000 @ TRUNCATION_MARK
                else paperText);
             historyText =
               join (js ''\<newline>'')
                 (map (\<lambda>m. (if role m = RoleUser then USER_LABEL else ASSISTANT_LABEL) @
                            js '': '' @ text' m) history);
             messages =
               [Message System (Plain CHAT_SYSTEM_PROMPT),
                Message User (Parts [TextPart
                  (TITLE_LABEL @ title_or_untitled title @ js ''\<newline>'' @
                   PAPER_CONTENT_LABEL @ truncated @ js ''\<newline>\<newline>'' @
                   CHAT_HISTORY_LABEL @ historyText @ js ''\<newline>\<newline>'' @
                   NEW_QUESTION_LABEL @ newMessage)])]
         in callWithFallback TEXT_MODEL TEXT_FALLBACK_MODEL messages
              [(js ''max_tokens'', JNum (js ''800''))] w))"

subsection \<open>Paper notes in a single call\<close>

text \<open>
  \<open>src/services/geminiService.ts\<close>, the module the paper view imports, has an
  \<open>analyzePaper\<close> of its own, written \<open>analyzePaper'\<close> here:
  \<^verbatim>\<open>
  export const analyzePaper = async (pdfText: string, title?: string): Promise<string> => {
    const truncated = pdfText.length > 12000
      ? pdfText.slice(0, 12000) + "\n\n[...]" : pdfText;
    const messages: ChatMessagePayload[] = [
      { role: "system", content: "..." },
      { role: "user",
        content: [
          { type: "text",
            text: `...: ${title || "..."}\n` +
                  "...\n" + "1) ...\n" + "2) ...\n" + "3) ...\n\n" +
                  truncated },
        ] },
    ];
    return callWithFallback(TEXT_MODEL, TEXT_FALLBACK_MODEL, messages, {
      max_tokens: 4096,
    });
  };
  \<close>
  The user text gives the title, says that what follows is the plain text taken from the
  PDF, and asks for close-reading notes that follow the sections of the paper, explain
  its main formulas and are written in Markdown.
\<close>

definition SINGLE_SYSTEM_PROMPT :: jsstring where
  "SINGLE_SYSTEM_PROMPT =
     [20320, 26159, 19968, 21517, 23398, 26415, 31934, 35835, 21161, 25163, 65292, 36755,
     20986, 32467, 26500, 21270, 30340] @ js '' Markdown '' @ [31934, 35835, 31508, 35760,
     65288, 31616, 20307, 20013, 25991, 65289, 12290]"

definition SINGLE_REQUEST :: jsstring where
  "SINGLE_REQUEST =
     [20197, 19979, 26159, 20174] @ js '' PDF '' @ [25552, 21462, 30340, 32431, 25991, 26412
     , 65288, 21487, 33021, 26080, 29256, 38754, 20449, 24687, 65289, 12290, 35831, 22522,
     20110, 20869, 23481, 29983, 25104, 8220, 31934, 35835, 31508, 35760, 8221, 65306] @
     js ''\<newline>1) '' @ [25353, 21407, 25991, 31456, 33410, 32467, 26500, 24635, 32467,
     20851, 38190, 28857, 65307] @ js ''\<newline>2) '' @ [35299, 37322, 26680, 24515, 20844
     , 24335, 65288, 29992] @ js '' $$ '' @ [21253, 35065] @ js '' LaTeX'' @ [65289, 65307]
     @ js ''\<newline>3) '' @ [29992] @ js '' Markdown '' @ [36755, 20986, 65292, 31361,
     20986, 37325, 28857, 12290] @ js ''\<newline>\<newline>''"

definition paper_messages' :: "jsstring option \<Rightarrow> jsstring \<Rightarrow> ChatMessagePayload list" where
  "paper_messages' title truncated =
     [Message System (Plain SINGLE_SYSTEM_PROMPT),
      Message User (Parts [TextPart
        (TITLE_LABEL @ title_or_untitled title @ js ''\<newline>'' @
         SINGLE_REQUEST @
         truncated)])]"

definition analyzePaper' :: "jsstring \<Rightarrow> jsstring option \<Rightarrow> world \<Rightarrow> (error + jsstring) \<times> world" where
  "analyzePaper' pdfText title w =
     (let truncated =
            (if length pdfText > 12000 then slice pdfText 0 12000 @ TRUNCATION_MARK
             else pdfText);
          messages = paper_messages' title truncated
      in callWithFallback TEXT_MODEL TEXT_FALLBACK_MODEL messages
           [(js ''max_tokens'', JNum (js ''4096''))] w)"

section \<open>PDF text extractor\<close>

text \<open>
  \<^verbatim>\<open>
  export const extractPdfText = async (base64: string): Promise<{ text: string; pages: number }> => {
    const data = base64.startsWith("data:")
      ? atob(base64.split(",")[1] ?? "")
      : atob(base64);
    const bytes = new Uint8Array(data.length);
    for (let i = 0; i < data.length; i++) bytes[i] = data.charCodeAt(i);
    const pdf = await getDocument({ data: bytes }).promise;
    let fullText = "";
    for (let pageNum = 1; pageNum <= pdf.numPages; pageNum++) {
      const page = await pdf.getPage(pageNum);
      const content = await page.getTextContent();
      const pageText = content.items.map((it: any) => it.str).join(" ");
      fullText += `\n\n[Page ${pageNum}]\n${pageText}`;
    }
    return { text: fullText.trim(), pages: pdf.numPages };
  };
  \<close>
  \<open>atob\<close> (the browser's) and \<open>getDocument\<close> (of pdf.js) are parameters; each gives \<open>None\<close>
  where it throws or rejects. An opened document is the list of its pages, a page the
  list of the \<open>str\<close> of its text items, in the order pdf.js reports them; \<open>numPages\<close> is
  the length of the list and \<open>getPage(k)\<close> is its element \<open>k - 1\<close>.
\<close>

type_synonym pdf_document = "jsstring list list"

record extraction =
  pdf_text :: jsstring
  pages :: nat

text \<open>\<open>s.split(sep)\<close> for a separator of one character.\<close>

fun split_at :: "nat \<Rightarrow> jsstring \<Rightarrow> jsstring list" where
  "split_at sep [] = [[]]"
| "split_at sep (c # cs) =
     (if c = sep then [] # split_at sep cs
      else (case split_at sep cs of
              [] \<Rightarrow> [[c]]
            | segment # segments \<Rightarrow> (c # segment) # segments))"

function extractPdfText_loop :: "pdf_document \<Rightarrow> nat \<Rightarrow> jsstring \<Rightarrow> jsstring" where
  "extractPdfText_loop pdf pageNum fullText =
     (if pageNum \<le> length pdf then
        (let content = pdf ! (pageNum - 1);
             pageText = join (js '' '') content
         in extractPdfText_loop pdf (pageNum + 1)
              (fullText @ js ''\<newline>\<newline>[Page '' @ decimal pageNum @ js '']\<newline>'' @ pageText))
      else fullText)"
  by pat_completeness auto
termination
  by (relation "measure (\<lambda>(pdf, pageNum, fullText). Suc (length pdf) - pageNum)") auto

declare extractPdfText_loop.simps [simp del]

text \<open>What is handed to \<open>atob\<close>: \<open>base64.split(",")[1] ?? ""\<close> for a data URL, else the input.\<close>

definition base64_payload :: "jsstring \<Rightarrow> jsstring" where
  "base64_payload base64 =
     (if startsWith base64 (js ''data:'')
      then (case split_at 44 base64 of
              head # payload # rest \<Rightarrow> payload
            | _ \<Rightarrow> [])
      else base64)"

definition extractPdfText ::
  "(jsstring \<Rightarrow> jsstring option) \<Rightarrow> (nat list \<Rightarrow> pdf_document option) \<Rightarrow> jsstring \<Rightarrow>
   error + extraction" where
  "extractPdfText atob getDocument base64 =
     (case atob (base64_payload base64) of
        None \<Rightarrow> Inl InvalidCharacterError
      | Some data \<Rightarrow>
          (let bytes = map (\<lambda>c. c mod 256) data
           in case getDocument bytes of
                None \<Rightarrow> Inl PdfException
              | Some pdf \<Rightarrow>
                  Inr \<lparr>pdf_text = trim (extractPdfText_loop pdf 1 []), pages = length pdf\<rparr>))"

section \<open>History store\<close>

text \<open>
  \<^verbatim>\<open>
  const [history, setHistory] = useState<PaperHistoryItem[]>([]);

  const saveToHistory = (item: PaperHistoryItem) => {
    // Remove existing item with same ID if exists (for updating chat history)
    const filteredHistory = history.filter(h => h.id !== item.id);
    const newHistory = [item, ...filteredHistory];
    setHistory(newHistory);
    localStorage.setItem('mathsnap_history', JSON.stringify(newHistory));
  };

  const deleteHistoryItem = (e: React.MouseEvent, id: string) => {
    e.stopPropagation();
    const newHistory = history.filter(h => h.id !== id);
    setHistory(newHistory);
    localStorage.setItem('mathsnap_history', JSON.stringify(newHistory));
  };
  \<close>
  The state is the list held by the component and the blob stored under
  \<open>mathsnap_history\<close>, which is written as the list it serialises.
\<close>

record history_state =
  history :: "PaperHistoryItem list"
  mathsnap_history :: "PaperHistoryItem list option"

definition saveToHistory :: "PaperHistoryItem \<Rightarrow> history_state \<Rightarrow> history_state" where
  "saveToHistory item st =
     (let filteredHistory = filter (\<lambda>h. id' h \<noteq> id' item) (history st);
          newHistory = item # filteredHistory
      in st\<lparr>history := newHistory, mathsnap_history := Some newHistory\<rparr>)"

definition deleteHistoryItem :: "jsstring \<Rightarrow> history_state \<Rightarrow> history_state" where
  "deleteHistoryItem ident st =
     (let newHistory = filter (\<lambda>h. id' h \<noteq> ident) (history st)
      in st\<lparr>history := newHistory, mathsnap_history := Some newHistory\<rparr>)"

section \<open>Properties of the chunker\<close>

lemma slice_window:
  assumes "0 \<le> a" "a \<le> b" "b \<le> int (length text)"
  shows "slice text a b = window text (nat a, nat b)"
proof -
  have "nat (b - a) = nat b - nat a"
    using assms by linarith
  moreover have "min a (int (length text)) = a" "min b (int (length text)) = b"
    using assms by simp_all
  ultimately show ?thesis
    using assms by (simp add: slice_def window_def Let_def)
qed

lemma body_cases:
  assumes "start < int (length text)"
  shows "(int (length text) \<le> start + size' \<and>
          splitIntoChunks_body text size' overlap start chunks =
            Break (chunks @ [slice text start (int (length text))])) \<or>
         (start + size' < int (length text) \<and>
          splitIntoChunks_body text size' overlap start chunks =
            Continue (start + (size' - overlap)) (chunks @ [slice text start (start + size')]))"
proof (cases "int (length text) \<le> start + size'")
  case True
  then have "min (start + size') (int (length text)) = int (length text)"
    by simp
  then show ?thesis
    using True by (simp add: splitIntoChunks_body_def Let_def)
next
  case False
  then have "min (start + size') (int (length text)) = start + size'"
    by simp
  moreover have "start + size' - overlap = start + (size' - overlap)"
    by simp
  ultimately show ?thesis
    using False by (simp add: splitIntoChunks_body_def Let_def)
qed

lemma loop_extends:
  assumes "overlap < size'"
  shows "\<exists>more. splitIntoChunks_loop text size' overlap start chunks = Some (chunks @ more) \<and>
               (start < int (length text) \<longrightarrow> more \<noteq> [])"
proof (induction "nat (int (length text) - start)" arbitrary: start chunks rule: less_induct)
  case less
  show ?case
  proof (cases "start < int (length text)")
    case False
    then have "splitIntoChunks_loop text size' overlap start chunks = Some (chunks @ [])"
      by (subst splitIntoChunks_loop.simps) simp
    with False show ?thesis
      by blast
  next
    case inside: True
    from body_cases [OF inside, of size' overlap chunks] show ?thesis
    proof (elim disjE conjE)
      assume "splitIntoChunks_body text size' overlap start chunks =
                Break (chunks @ [slice text start (int (length text))])"
      then have "splitIntoChunks_loop text size' overlap start chunks =
                   Some (chunks @ [slice text start (int (length text))])"
        using inside by (subst splitIntoChunks_loop.simps) simp
      then show ?thesis
        by blast
    next
      assume step: "splitIntoChunks_body text size' overlap start chunks =
                Continue (start + (size' - overlap)) (chunks @ [slice text start (start + size')])"
      have "nat (int (length text) - (start + (size' - overlap))) < nat (int (length text) - start)"
        using assms inside by linarith
      from less [OF this] obtain more where
        "splitIntoChunks_loop text size' overlap (start + (size' - overlap))
           (chunks @ [slice text start (start + size')]) =
         Some ((chunks @ [slice text start (start + size')]) @ more)"
        by blast
      then have "splitIntoChunks_loop text size' overlap start chunks =
                   Some (chunks @ (slice text start (start + size') # more))"
        using inside step by (subst splitIntoChunks_loop.simps) simp
      then show ?thesis
        by blast
    qed
  qed
qed

lemma splitIntoChunks_returns:
  assumes "overlap < size'"
  shows "\<exists>chunks. splitIntoChunks text size' overlap = Some chunks \<and>
                  (0 \<le> size' \<longrightarrow> chunks \<noteq> [])"
proof (cases "int (length text) \<le> size'")
  case True
  then show ?thesis
    by (simp add: splitIntoChunks_def)
next
  case False
  from loop_extends [OF assms, of "text" 0 "[]"] obtain more where
    "splitIntoChunks_loop text size' overlap 0 [] = Some more"
    "0 < int (length text) \<longrightarrow> more \<noteq> []"
    by auto
  with False show ?thesis
    by (auto simp add: splitIntoChunks_def)
qed

lemma loop_windows:
  assumes "0 \<le> overlap" "overlap < size'"
  shows "0 \<le> start \<Longrightarrow> start < int (length text) \<Longrightarrow>
    \<exists>ws. splitIntoChunks_loop text size' overlap start chunks = Some (chunks @ map (window text) ws) \<and>
         (\<forall>w \<in> set ws. fst w \<le> snd w \<and> snd w \<le> length text) \<and>
         (\<forall>i. nat start \<le> i \<and> i < length text \<longrightarrow> (\<exists>w \<in> set ws. fst w \<le> i \<and> i < snd w))"
proof (induction "nat (int (length text) - start)" arbitrary: start chunks rule: less_induct)
  case less
  note inside = \<open>start < int (length text)\<close> and nonneg = \<open>0 \<le> start\<close>
  from body_cases [OF inside, of size' overlap chunks] show ?case
  proof (elim disjE conjE)
    assume last: "int (length text) \<le> start + size'"
      and "splitIntoChunks_body text size' overlap start chunks =
             Break (chunks @ [slice text start (int (length text))])"
    then have "splitIntoChunks_loop text size' overlap start chunks =
                 Some (chunks @ [slice text start (int (length text))])"
      using inside by (subst splitIntoChunks_loop.simps) simp
    moreover have "slice text start (int (length text)) = window text (nat start, length text)"
      using slice_window [of start "int (length text)" "text"] nonneg inside by simp
    ultimately have "splitIntoChunks_loop text size' overlap start chunks =
                 Some (chunks @ map (window text) [(nat start, length text)])"
      by simp
    moreover have "\<forall>w \<in> set [(nat start, length text)]. fst w \<le> snd w \<and> snd w \<le> length text"
      using inside by simp
    moreover have "\<forall>i. nat start \<le> i \<and> i < length text \<longrightarrow>
                     (\<exists>w \<in> set [(nat start, length text)]. fst w \<le> i \<and> i < snd w)"
      by simp
    ultimately show ?thesis
      by blast
  next
    assume more: "start + size' < int (length text)"
      and step: "splitIntoChunks_body text size' overlap start chunks =
             Continue (start + (size' - overlap)) (chunks @ [slice text start (start + size')])"
    let ?start' = "start + (size' - overlap)"
    let ?chunks' = "chunks @ [slice text start (start + size')]"
    have smaller: "nat (int (length text) - ?start') < nat (int (length text) - start)"
      using assms inside by linarith
    have "0 \<le> ?start'" "?start' < int (length text)"
      using assms nonneg more by linarith+
    from less.hyps [OF smaller this] obtain ws where
      run: "splitIntoChunks_loop text size' overlap ?start' ?chunks' =
              Some (?chunks' @ map (window text) ws)"
      and inside_ws: "\<forall>w \<in> set ws. fst w \<le> snd w \<and> snd w \<le> length text"
      and cover: "\<forall>i. nat ?start' \<le> i \<and> i < length text \<longrightarrow> (\<exists>w \<in> set ws. fst w \<le> i \<and> i < snd w)"
      by blast
    let ?w = "(nat start, nat (start + size'))"
    have chunk: "slice text start (start + size') = window text ?w"
      using slice_window [of start "start + size'" "text"] nonneg more assms by simp
    have "splitIntoChunks_loop text size' overlap start chunks =
            splitIntoChunks_loop text size' overlap ?start' ?chunks'"
      using inside step by (subst splitIntoChunks_loop.simps) simp
    with run chunk have "splitIntoChunks_loop text size' overlap start chunks =
            Some (chunks @ map (window text) (?w # ws))"
      by simp
    moreover have "nat start \<le> nat (start + size') \<and> nat (start + size') \<le> length text"
      using nonneg more assms by linarith
    then have "\<forall>w \<in> set (?w # ws). fst w \<le> snd w \<and> snd w \<le> length text"
      using inside_ws by simp
    moreover have "\<forall>i. nat start \<le> i \<and> i < length text \<longrightarrow>
                     (\<exists>w \<in> set (?w # ws). fst w \<le> i \<and> i < snd w)"
    proof (intro allI impI)
      fix i
      assume i: "nat start \<le> i \<and> i < length text"
      show "\<exists>w \<in> set (?w # ws). fst w \<le> i \<and> i < snd w"
      proof (cases "i < nat (start + size')")
        case True
        with i show ?thesis by simp
      next
        case False
        then have "nat ?start' \<le> i"
          using assms by linarith
        with cover i obtain w where "w \<in> set ws" "fst w \<le> i \<and> i < snd w"
          by blast
        then show ?thesis by auto
      qed
    qed
    ultimately show ?thesis
      by blast
  qed
qed

text \<open>
  C9. For parameters with \<open>0 \<le> overlap < size\<close> and \<open>size > 0\<close>, \<open>splitIntoChunks\<close>
  returns on every text. In each pass of the loop either the window reaches the end of
  the text and the loop breaks, or the loop goes on with the window start moved forward
  by \<open>size - overlap\<close>, which is positive because \<open>overlap < size\<close>.
\<close>

theorem splitIntoChunks_terminates:
  assumes "0 \<le> overlap" "overlap < size'" "0 < size'"
  shows "(\<exists>chunks. splitIntoChunks text size' overlap = Some chunks) \<and>
         (\<forall>start chunks. start < int (length text) \<longrightarrow>
            (int (length text) \<le> start + size' \<and>
             splitIntoChunks_body text size' overlap start chunks =
               Break (chunks @ [slice text start (int (length text))])) \<or>
            (start + size' < int (length text) \<and>
             splitIntoChunks_body text size' overlap start chunks =
               Continue (start + (size' - overlap)) (chunks @ [slice text start (start + size')]) \<and>
             start < start + (size' - overlap)))"
proof (intro conjI allI impI)
  show "\<exists>chunks. splitIntoChunks text size' overlap = Some chunks"
    using splitIntoChunks_returns [OF assms(2), of "text"] by blast
next
  fix start :: int and chunks :: "'a list list"
  assume "start < int (length text)"
  from body_cases [OF this, of size' overlap chunks] assms(2)
  show "(int (length text) \<le> start + size' \<and>
         splitIntoChunks_body text size' overlap start chunks =
           Break (chunks @ [slice text start (int (length text))])) \<or>
        (start + size' < int (length text) \<and>
         splitIntoChunks_body text size' overlap start chunks =
           Continue (start + (size' - overlap)) (chunks @ [slice text start (start + size')]) \<and>
         start < start + (size' - overlap))"
    by auto
qed

theorem splitIntoChunks_terminates_witness:
  "(0::int) \<le> 1 \<and> (1::int) < 2 \<and> (0::int) < 2 \<and>
   (\<exists>chunks. splitIntoChunks ''abcde'' 2 1 = Some chunks) \<and>
   (0::int) < int (length ''abcde'') \<and>
   splitIntoChunks_body ''abcde'' 2 1 0 [] = Continue 1 [''ab''] \<and>
   splitIntoChunks_body ''abcde'' 2 1 3 [''ab'', ''bc'', ''cd''] =
     Break [''ab'', ''bc'', ''cd'', ''de'']"
  using splitIntoChunks_terminates [of 1 2 "''abcde''"]
  by (simp add: splitIntoChunks_body_def slice_def)

text \<open>
  C1. For every text, every chunk size and every overlap size smaller than it (the two
  are numbers of characters, so \<open>0 \<le> overlap < size\<close>), \<open>splitIntoChunks\<close> returns the
  chunks of a list of windows \<open>[a, b)\<close> of the text such that every index of the text
  lies in one of the windows; when the text is no longer than \<open>size\<close> the result is the
  one chunk that is the whole text.
\<close>

theorem splitIntoChunks_covers:
  assumes "0 \<le> overlap" "overlap < size'"
  shows "\<exists>ws. splitIntoChunks text size' overlap = Some (map (window text) ws) \<and>
              (\<forall>w \<in> set ws. fst w \<le> snd w \<and> snd w \<le> length text) \<and>
              (\<forall>i < length text. \<exists>w \<in> set ws. fst w \<le> i \<and> i < snd w) \<and>
              (int (length text) \<le> size' \<longrightarrow>
                 ws = [(0, length text)] \<and> splitIntoChunks text size' overlap = Some [text])"
proof (cases "int (length text) \<le> size'")
  case True
  then have "splitIntoChunks text size' overlap = Some (map (window text) [(0, length text)])"
    by (simp add: splitIntoChunks_def window_def)
  then show ?thesis
    using True by (intro exI [of _ "[(0, length text)]"]) (simp add: window_def)
next
  case False
  then have "(0::int) < int (length text)"
    using assms by linarith
  from loop_windows [OF assms _ this, of "[]"] obtain ws where
    "splitIntoChunks_loop text size' overlap 0 [] = Some (map (window text) ws)"
    "\<forall>w \<in> set ws. fst w \<le> snd w \<and> snd w \<le> length text"
    "\<forall>i. i < length text \<longrightarrow> (\<exists>w \<in> set ws. fst w \<le> i \<and> i < snd w)"
    by auto
  then show ?thesis
    using False by (intro exI [of _ ws]) (simp add: splitIntoChunks_def)
qed

theorem splitIntoChunks_covers_witness:
  "(0::int) \<le> 1 \<and> (1::int) < 2 \<and>
   (\<exists>ws. splitIntoChunks ''abcde'' 2 1 = Some (map (window ''abcde'') ws) \<and>
         (\<forall>w \<in> set ws. fst w \<le> snd w \<and> snd w \<le> length ''abcde'') \<and>
         (\<forall>i < length ''abcde''. \<exists>w \<in> set ws. fst w \<le> i \<and> i < snd w)) \<and>
   splitIntoChunks ''abcde'' 2 1 = Some [''ab'', ''bc'', ''cd'', ''de''] \<and>
   splitIntoChunks ''abcde'' 5 1 = Some [''abcde'']"
proof -
  have "splitIntoChunks ''abcde'' 2 1 = Some [''ab'', ''bc'', ''cd'', ''de'']"
    by code_simp
  moreover have "splitIntoChunks ''abcde'' 5 1 = Some [''abcde'']"
    by (simp add: splitIntoChunks_def)
  ultimately show ?thesis
    using splitIntoChunks_covers [of 1 2 "''abcde''"] by simp
qed

section \<open>Properties of the key store\<close>

text \<open>
  C10, as the code has it. Where \<open>localStorage\<close> exists, \<open>setApiKey k\<close> with a non-empty
  \<open>k\<close> followed by \<open>getApiKey\<close> returns \<open>k.trim()\<close>, and \<open>setApiKey\<close> with the empty
  string removes the credential, so that \<open>getApiKey\<close> returns \<open>null\<close>. Where there is no
  \<open>localStorage\<close>, \<open>setApiKey\<close> does nothing and \<open>getApiKey\<close> returns \<open>null\<close>.
\<close>

theorem setApiKey_getApiKey:
  "(key \<noteq> [] \<longrightarrow> getApiKey (setApiKey key (Some items)) = Some (trim key)) \<and>
   getApiKey (setApiKey [] (Some items)) = None \<and>
   setApiKey key None = None \<and> getApiKey None = None"
  by (simp add: getApiKey_def setApiKey_def)

theorem setApiKey_getApiKey_witness:
  "js '' sk-1 '' \<noteq> [] \<and>
   getApiKey (setApiKey (js '' sk-1 '') (Some Map.empty)) = Some (js ''sk-1'') \<and>
   js '' sk-1 '' \<noteq> js ''sk-1''"
proof -
  have "trim (js '' sk-1 '') = js ''sk-1''"
    by (simp add: trim_def js_def is_whitespace_def)
  moreover have "js '' sk-1 '' \<noteq> js ''sk-1''" "js '' sk-1 '' \<noteq> []"
    by (simp_all add: js_def)
  ultimately show ?thesis
    using setApiKey_getApiKey [of "js '' sk-1 ''" Map.empty] by simp
qed

text \<open>
  C10 as stated holds in no environment without \<open>localStorage\<close>: there \<open>setApiKey\<close>
  returns at its guard and \<open>getApiKey\<close> returns \<open>null\<close>, not the trimmed key.
\<close>

theorem setApiKey_no_storage_counterexample:
  "js ''sk-1'' \<noteq> [] \<and>
   getApiKey (setApiKey (js ''sk-1'') None) \<noteq> Some (trim (js ''sk-1''))"
  by (simp add: getApiKey_def setApiKey_def js_def)

section \<open>Properties of the gateway\<close>

lemma trim_Nil_iff: "trim s = [] \<longleftrightarrow> (\<forall>c \<in> set s. is_whitespace c)"
proof -
  have "dropWhile is_whitespace s = [] \<longleftrightarrow> (\<forall>c \<in> set s. is_whitespace c)"
    by (simp add: dropWhile_eq_Nil_conv)
  moreover have "(\<forall>c \<in> set (dropWhile is_whitespace s). is_whitespace c) \<longleftrightarrow>
                 dropWhile is_whitespace s = []"
  proof
    assume all: "\<forall>c \<in> set (dropWhile is_whitespace s). is_whitespace c"
    show "dropWhile is_whitespace s = []"
    proof (rule ccontr)
      assume nonempty: "dropWhile is_whitespace s \<noteq> []"
      then have "\<not> is_whitespace (hd (dropWhile is_whitespace s))"
        by (rule hd_dropWhile)
      moreover have "hd (dropWhile is_whitespace s) \<in> set (dropWhile is_whitespace s)"
        using nonempty by simp
      ultimately show False
        using all by blast
    qed
  next
    assume empty: "dropWhile is_whitespace s = []"
    show "\<forall>c \<in> set (dropWhile is_whitespace s). is_whitespace c"
      unfolding empty by simp
  qed
  ultimately show ?thesis
    by (simp add: trim_def dropWhile_eq_Nil_conv)
qed

lemma ensureApiKey_no_key:
  assumes "\<not> hasApiKey (localStorage w)"
  shows "ensureApiKey w = Inl (MissingKeyError MISSING_KEY_MESSAGE)"
  using assms by (simp add: ensureApiKey_def hasApiKey_def split: option.splits)

lemma callSiliconChat_no_key:
  assumes "\<not> hasApiKey (localStorage w)"
  shows "callSiliconChat model messages options w = (Inl (MissingKeyError MISSING_KEY_MESSAGE), w)"
  using ensureApiKey_no_key [OF assms] by (simp add: callSiliconChat_def)

lemma callWithFallback_no_key:
  assumes "\<not> hasApiKey (localStorage w)"
  shows "callWithFallback primaryModel fallbackModel messages options w =
           (Inl (MissingKeyError MISSING_KEY_MESSAGE),
            console_warn (primaryModel @ FALLBACK_WARNING @ fallbackModel)
              (MissingKeyError MISSING_KEY_MESSAGE) w)"
proof -
  let ?w' = "console_warn (primaryModel @ FALLBACK_WARNING @ fallbackModel)
               (MissingKeyError MISSING_KEY_MESSAGE) w"
  have "\<not> hasApiKey (localStorage ?w')"
    using assms by (simp add: console_warn_def)
  then have "callSiliconChat fallbackModel messages options ?w' =
               (Inl (MissingKeyError MISSING_KEY_MESSAGE), ?w')"
    by (rule callSiliconChat_no_key)
  then show ?thesis
    using callSiliconChat_no_key [OF assms, of primaryModel messages options]
    by (simp add: callWithFallback_def)
qed

text \<open>
  C3. Whenever the call of the primary model fails, for whatever reason, the result of
  \<open>callWithFallback\<close> is the result of the call of the fallback model with the same
  messages and options, made after the warning is logged: its text when it succeeds,
  and then the caller sees no error, its error when it fails too.
\<close>

theorem callWithFallback_falls_back:
  assumes "callSiliconChat primaryModel messages options w = (Inl err, w1)"
  shows "(\<forall>answer w2.
            callSiliconChat fallbackModel messages options
              (console_warn (primaryModel @ FALLBACK_WARNING @ fallbackModel) err w1) =
              (Inr answer, w2) \<longrightarrow>
            callWithFallback primaryModel fallbackModel messages options w = (Inr answer, w2)) \<and>
         (\<forall>err2 w2.
            callSiliconChat fallbackModel messages options
              (console_warn (primaryModel @ FALLBACK_WARNING @ fallbackModel) err w1) =
              (Inl err2, w2) \<longrightarrow>
            callWithFallback primaryModel fallbackModel messages options w = (Inl err2, w2))"
  using assms by (simp add: callWithFallback_def)

text \<open>
  C8. When the document text is empty or all whitespace, \<open>chatWithPaper\<close> fails with the
  empty-document error and leaves the world as it was: nothing is sent and nothing is
  logged.
\<close>

theorem chatWithPaper_empty_document:
  assumes "\<forall>c \<in> set paperText. is_whitespace c"
  shows "chatWithPaper paperText transcript newMessage title w =
           (Inl (Error EMPTY_PDF_TEXT_MESSAGE), w)"
  using assms trim_Nil_iff [of paperText] by (simp add: chatWithPaper_def)

theorem callWithFallback_falls_back_witness:
  "callSiliconChat TEXT_MODEL [] []
     \<lparr>localStorage = Some [STORAGE_KEY \<mapsto> js ''sk-1''],
      network =
        [\<lambda>req. Response False (js ''Bad Gateway'') (Some JNull),
         \<lambda>req. Response True (js ''OK'')
           (Some (JObj [(js ''choices'',
              JArr [JObj [(js ''message'',
                JObj [(js ''content'',
                  JArr [JObj [(js ''type'', JStr (js ''text'')),
                              (js ''text'', JStr (js ''a note''))]])])]])]))],
      trace = []\<rparr> =
     (Inl (Error (js ''Bad Gateway'')),
      \<lparr>localStorage = Some [STORAGE_KEY \<mapsto> js ''sk-1''],
       network =
         [\<lambda>req. Response True (js ''OK'')
            (Some (JObj [(js ''choices'',
               JArr [JObj [(js ''message'',
                 JObj [(js ''content'',
                   JArr [JObj [(js ''type'', JStr (js ''text'')),
                               (js ''text'', JStr (js ''a note''))]])])]])]))],
       trace =
         [Fetch \<lparr>url = BASE_URL @ js ''/chat/completions'',
                 authorization = js ''Bearer sk-1'',
                 req_model = TEXT_MODEL, req_messages = [], req_options = []\<rparr>]\<rparr>) \<and>
   callWithFallback TEXT_MODEL TEXT_FALLBACK_MODEL [] []
     \<lparr>localStorage = Some [STORAGE_KEY \<mapsto> js ''sk-1''],
      network =
        [\<lambda>req. Response False (js ''Bad Gateway'') (Some JNull),
         \<lambda>req. Response True (js ''OK'')
           (Some (JObj [(js ''choices'',
              JArr [JObj [(js ''message'',
                JObj [(js ''content'',
                  JArr [JObj [(js ''type'', JStr (js ''text'')),
                              (js ''text'', JStr (js ''a note''))]])])]])]))],
      trace = []\<rparr> =
     (Inr (js ''a note''),
      \<lparr>localStorage = Some [STORAGE_KEY \<mapsto> js ''sk-1''],
       network = [],
       trace =
         [Fetch \<lparr>url = BASE_URL @ js ''/chat/completions'',
                 authorization = js ''Bearer sk-1'',
                 req_model = TEXT_MODEL, req_messages = [], req_options = []\<rparr>,
          ConsoleWarn (TEXT_MODEL @ FALLBACK_WARNING @ TEXT_FALLBACK_MODEL)
            (Error (js ''Bad Gateway'')),
          Fetch \<lparr>url = BASE_URL @ js ''/chat/completions'',
                 authorization = js ''Bearer sk-1'',
                 req_model = TEXT_FALLBACK_MODEL, req_messages = [], req_options = []\<rparr>]\<rparr>)"
  (is "?primary \<and> ?both")
proof -
  have key: "js ''error'' \<noteq> js ''message''" "js ''choices'' \<noteq> js ''message''"
    "js ''type'' \<noteq> js ''text''" "js ''Bad Gateway'' \<noteq> []" "js ''sk-1'' \<noteq> []"
    "js ''a note'' \<noteq> []" "js ''Bearer '' @ js ''sk-1'' = js ''Bearer sk-1''"
    by (simp_all add: js_def)
  have note_text: "trim (js ''a note'') \<noteq> []"
    by (simp add: trim_Nil_iff js_def is_whitespace_def)
  have primary: ?primary
    using key
    by (simp add: callSiliconChat_def ensureApiKey_def getApiKey_def fetch_def
        read_completion_def or_else_def)
  have "callSiliconChat TEXT_FALLBACK_MODEL [] []
          (console_warn (TEXT_MODEL @ FALLBACK_WARNING @ TEXT_FALLBACK_MODEL)
             (Error (js ''Bad Gateway''))
             \<lparr>localStorage = Some [STORAGE_KEY \<mapsto> js ''sk-1''],
              network =
                [\<lambda>req. Response True (js ''OK'')
                   (Some (JObj [(js ''choices'',
                      JArr [JObj [(js ''message'',
                        JObj [(js ''content'',
                          JArr [JObj [(js ''type'', JStr (js ''text'')),
                                      (js ''text'', JStr (js ''a note''))]])])]])]))],
              trace =
                [Fetch \<lparr>url = BASE_URL @ js ''/chat/completions'',
                        authorization = js ''Bearer sk-1'',
                        req_model = TEXT_MODEL, req_messages = [], req_options = []\<rparr>]\<rparr>) =
        (Inr (js ''a note''),
         \<lparr>localStorage = Some [STORAGE_KEY \<mapsto> js ''sk-1''],
          network = [],
          trace =
            [Fetch \<lparr>url = BASE_URL @ js ''/chat/completions'',
                    authorization = js ''Bearer sk-1'',
                    req_model = TEXT_MODEL, req_messages = [], req_options = []\<rparr>,
             ConsoleWarn (TEXT_MODEL @ FALLBACK_WARNING @ TEXT_FALLBACK_MODEL)
               (Error (js ''Bad Gateway'')),
             Fetch \<lparr>url = BASE_URL @ js ''/chat/completions'',
                    authorization = js ''Bearer sk-1'',
                    req_model = TEXT_FALLBACK_MODEL, req_messages = [], req_options = []\<rparr>]\<rparr>)"
    using key note_text
    by (simp add: callSiliconChat_def ensureApiKey_def getApiKey_def fetch_def console_warn_def
        read_completion_def or_else_def)
  with callWithFallback_falls_back [OF primary, of TEXT_FALLBACK_MODEL] have ?both
    by blast
  with primary show ?thesis
    by blast
qed

theorem chatWithPaper_empty_document_witness:
  "list_all is_whitespace (js ''  \<newline>'') \<and>
   chatWithPaper (js ''  \<newline>'') [] (js ''What is the main result?'') None
     \<lparr>localStorage = Some [STORAGE_KEY \<mapsto> js ''sk-1''], network = [], trace = []\<rparr> =
     (Inl (Error EMPTY_PDF_TEXT_MESSAGE),
      \<lparr>localStorage = Some [STORAGE_KEY \<mapsto> js ''sk-1''], network = [], trace = []\<rparr>)"
proof -
  have blank: "\<forall>c \<in> set (js ''  \<newline>''). is_whitespace c"
    by (simp add: js_def is_whitespace_def)
  then have "list_all is_whitespace (js ''  \<newline>'')"
    by (simp only: list_all_iff)
  with chatWithPaper_empty_document [OF blank] show ?thesis
    by blast
qed

lemma analyzePaper_loop_first_fails:
  assumes "chunks \<noteq> []"
    and "callWithFallback TEXT_MODEL TEXT_FALLBACK_MODEL
           (paper_messages title 0 (length chunks) (chunks ! 0))
           [(js ''max_tokens'', JNum (js ''5200''))] w = (Inl err, w')"
  shows "analyzePaper_loop title chunks 0 [] w = (Inl err, w')"
  using assms by (subst analyzePaper_loop.simps) simp

lemma analyzePaper_no_key:
  assumes "\<not> hasApiKey (localStorage w)"
  shows "analyzePaper pdfText title w =
           Some (Inl (MissingKeyError MISSING_KEY_MESSAGE),
                 console_warn (TEXT_MODEL @ FALLBACK_WARNING @ TEXT_FALLBACK_MODEL)
                   (MissingKeyError MISSING_KEY_MESSAGE) w)"
proof -
  have "NOTE_CHUNK_OVERLAP < NOTE_CHUNK_SIZE" "0 \<le> NOTE_CHUNK_SIZE"
    by (simp_all add: NOTE_CHUNK_OVERLAP_def NOTE_CHUNK_SIZE_def)
  with splitIntoChunks_returns [of NOTE_CHUNK_OVERLAP NOTE_CHUNK_SIZE pdfText]
  obtain chunks where
    chunks: "splitIntoChunks pdfText NOTE_CHUNK_SIZE NOTE_CHUNK_OVERLAP = Some chunks"
    and nonempty: "chunks \<noteq> []"
    by blast
  from analyzePaper_loop_first_fails [OF nonempty callWithFallback_no_key [OF assms]]
  show ?thesis
    using chunks by (simp add: analyzePaper_def)
qed

text \<open>
  C4, as the code has it. When no credential is stored, every provider call of the
  gateway fails with a \<open>MissingKeyError\<close> whose message asks for the SiliconFlow API Key,
  and no request is sent: this holds for \<open>callWithFallback\<close> itself and so for
  \<open>analyzeImage\<close>, \<open>analyzeChart\<close>, \<open>analyzePaper\<close> and, on a text that is not blank,
  \<open>chatWithPaper\<close>. The failure of the primary attempt is handled like any other: the
  warning is logged and the call of the fallback model is made, which fails in the same
  way; the warning is all that the call adds to the world.
\<close>

theorem missing_key_fails:
  assumes "\<not> hasApiKey (localStorage w)"
  shows "callWithFallback primaryModel fallbackModel messages options w =
           (Inl (MissingKeyError MISSING_KEY_MESSAGE),
            console_warn (primaryModel @ FALLBACK_WARNING @ fallbackModel)
              (MissingKeyError MISSING_KEY_MESSAGE) w) \<and>
         callWithFallback primaryModel fallbackModel messages options w =
           callSiliconChat fallbackModel messages options
             (console_warn (primaryModel @ FALLBACK_WARNING @ fallbackModel)
                (MissingKeyError MISSING_KEY_MESSAGE) w) \<and>
         analyzeImage JSON_parse base64Image w =
           (Inl (MissingKeyError MISSING_KEY_MESSAGE),
            console_warn (VISION_MODEL @ FALLBACK_WARNING @ VISION_FALLBACK_MODEL)
              (MissingKeyError MISSING_KEY_MESSAGE) w) \<and>
         analyzeChart base64Image w =
           (Inl (MissingKeyError MISSING_KEY_MESSAGE),
            console_warn (VISION_MODEL @ FALLBACK_WARNING @ VISION_FALLBACK_MODEL)
              (MissingKeyError MISSING_KEY_MESSAGE) w) \<and>
         analyzePaper pdfText title w =
           Some (Inl (MissingKeyError MISSING_KEY_MESSAGE),
                 console_warn (TEXT_MODEL @ FALLBACK_WARNING @ TEXT_FALLBACK_MODEL)
                   (MissingKeyError MISSING_KEY_MESSAGE) w) \<and>
         (trim paperText \<noteq> [] \<longrightarrow>
            chatWithPaper paperText transcript newMessage title w =
              (Inl (MissingKeyError MISSING_KEY_MESSAGE),
               console_warn (TEXT_MODEL @ FALLBACK_WARNING @ TEXT_FALLBACK_MODEL)
                 (MissingKeyError MISSING_KEY_MESSAGE) w)) \<and>
         (\<exists>before after. MISSING_KEY_MESSAGE = before @ js ''SiliconFlow API Key'' @ after)"
proof (intro conjI impI)
  show "callWithFallback primaryModel fallbackModel messages options w =
          (Inl (MissingKeyError MISSING_KEY_MESSAGE),
           console_warn (primaryModel @ FALLBACK_WARNING @ fallbackModel)
             (MissingKeyError MISSING_KEY_MESSAGE) w)"
    by (rule callWithFallback_no_key [OF assms])
next
  show "callWithFallback primaryModel fallbackModel messages options w =
          callSiliconChat fallbackModel messages options
            (console_warn (primaryModel @ FALLBACK_WARNING @ fallbackModel)
               (MissingKeyError MISSING_KEY_MESSAGE) w)"
    using callSiliconChat_no_key [OF assms, of primaryModel messages options]
    by (simp add: callWithFallback_def)
next
  show "analyzeImage JSON_parse base64Image w =
          (Inl (MissingKeyError MISSING_KEY_MESSAGE),
           console_warn (VISION_MODEL @ FALLBACK_WARNING @ VISION_FALLBACK_MODEL)
             (MissingKeyError MISSING_KEY_MESSAGE) w)"
    by (simp add: analyzeImage_def Let_def callWithFallback_no_key [OF assms])
next
  show "analyzeChart base64Image w =
          (Inl (MissingKeyError MISSING_KEY_MESSAGE),
           console_warn (VISION_MODEL @ FALLBACK_WARNING @ VISION_FALLBACK_MODEL)
             (MissingKeyError MISSING_KEY_MESSAGE) w)"
    by (simp add: analyzeChart_def Let_def callWithFallback_no_key [OF assms])
next
  show "analyzePaper pdfText title w =
          Some (Inl (MissingKeyError MISSING_KEY_MESSAGE),
                console_warn (TEXT_MODEL @ FALLBACK_WARNING @ TEXT_FALLBACK_MODEL)
                  (MissingKeyError MISSING_KEY_MESSAGE) w)"
    by (rule analyzePaper_no_key [OF assms])
next
  assume "trim paperText \<noteq> []"
  then show "chatWithPaper paperText transcript newMessage title w =
          (Inl (MissingKeyError MISSING_KEY_MESSAGE),
           console_warn (TEXT_MODEL @ FALLBACK_WARNING @ TEXT_FALLBACK_MODEL)
             (MissingKeyError MISSING_KEY_MESSAGE) w)"
    by (simp add: chatWithPaper_def Let_def callWithFallback_no_key [OF assms])
next
  have "MISSING_KEY_MESSAGE =
          ([35831, 20808, 22312, 39030, 37096, 36755, 20837] @ js '' '') @
          js ''SiliconFlow API Key'' @
          [65288, 20165, 20445, 23384, 22312, 26412, 22320, 27983, 35272, 22120, 65289, 12290]"
    by (simp add: MISSING_KEY_MESSAGE_def js_def)
  then show "\<exists>before after. MISSING_KEY_MESSAGE = before @ js ''SiliconFlow API Key'' @ after"
    by blast
qed

theorem missing_key_fails_witness:
  "\<not> hasApiKey (localStorage \<lparr>localStorage = Some Map.empty, network = [], trace = []\<rparr>) \<and>
   analyzeChart (js ''iVBORw0KGgo='') \<lparr>localStorage = Some Map.empty, network = [], trace = []\<rparr> =
     (Inl (MissingKeyError MISSING_KEY_MESSAGE),
      \<lparr>localStorage = Some Map.empty, network = [],
       trace = [ConsoleWarn (VISION_MODEL @ FALLBACK_WARNING @ VISION_FALLBACK_MODEL)
                  (MissingKeyError MISSING_KEY_MESSAGE)]\<rparr>) \<and>
   trim (js ''Abstract'') \<noteq> [] \<and>
   chatWithPaper (js ''Abstract'') [] (js ''Why?'') None
       \<lparr>localStorage = Some Map.empty, network = [], trace = []\<rparr> =
     (Inl (MissingKeyError MISSING_KEY_MESSAGE),
      \<lparr>localStorage = Some Map.empty, network = [],
       trace = [ConsoleWarn (TEXT_MODEL @ FALLBACK_WARNING @ TEXT_FALLBACK_MODEL)
                  (MissingKeyError MISSING_KEY_MESSAGE)]\<rparr>)"
proof -
  have no_key: "\<not> hasApiKey (localStorage \<lparr>localStorage = Some Map.empty, network = [], trace = []\<rparr>)"
    by (simp add: hasApiKey_def getApiKey_def)
  have nonblank: "trim (js ''Abstract'') \<noteq> []"
    by (simp add: trim_Nil_iff js_def is_whitespace_def)
  from missing_key_fails [OF no_key, of _ _ _ _ _ "js ''iVBORw0KGgo=''" _ _ "js ''Abstract''" "[]" "js ''Why?''"]
    no_key nonblank
  show ?thesis
    by (simp add: console_warn_def)
qed

text \<open>
  C4 as stated fails twice. With no credential stored the failure is retried: the catch
  of \<open>callWithFallback\<close> does not look at the error, logs the warning and calls the
  fallback model, and what the caller gets is the result of that second call. And
  \<open>chatWithPaper\<close> on a blank text fails with the empty-document error, not with the
  missing-key error, because it tests the text before it reads the key.
\<close>

theorem missing_key_retried_counterexample:
  "\<not> hasApiKey (localStorage \<lparr>localStorage = Some Map.empty, network = [], trace = []\<rparr>) \<and>
   callSiliconChat TEXT_MODEL [] [] \<lparr>localStorage = Some Map.empty, network = [], trace = []\<rparr> =
     (Inl (MissingKeyError MISSING_KEY_MESSAGE),
      \<lparr>localStorage = Some Map.empty, network = [], trace = []\<rparr>) \<and>
   callWithFallback TEXT_MODEL TEXT_FALLBACK_MODEL [] []
       \<lparr>localStorage = Some Map.empty, network = [], trace = []\<rparr> =
     callSiliconChat TEXT_FALLBACK_MODEL [] []
       \<lparr>localStorage = Some Map.empty, network = [],
        trace = [ConsoleWarn (TEXT_MODEL @ FALLBACK_WARNING @ TEXT_FALLBACK_MODEL)
                   (MissingKeyError MISSING_KEY_MESSAGE)]\<rparr> \<and>
   snd (callWithFallback TEXT_MODEL TEXT_FALLBACK_MODEL [] []
          \<lparr>localStorage = Some Map.empty, network = [], trace = []\<rparr>) \<noteq>
     \<lparr>localStorage = Some Map.empty, network = [], trace = []\<rparr> \<and>
   chatWithPaper [] [] (js ''Why?'') None
       \<lparr>localStorage = Some Map.empty, network = [], trace = []\<rparr> =
     (Inl (Error EMPTY_PDF_TEXT_MESSAGE),
      \<lparr>localStorage = Some Map.empty, network = [], trace = []\<rparr>) \<and>
   Error EMPTY_PDF_TEXT_MESSAGE \<noteq> MissingKeyError MISSING_KEY_MESSAGE"
proof -
  have no_key: "\<not> hasApiKey (localStorage \<lparr>localStorage = Some Map.empty, network = [], trace = []\<rparr>)"
    by (simp add: hasApiKey_def getApiKey_def)
  have "trim [] = []"
    by (simp add: trim_def)
  then show ?thesis
    using no_key callSiliconChat_no_key [OF no_key] callWithFallback_no_key [OF no_key]
    by (simp add: console_warn_def chatWithPaper_def callWithFallback_def)
qed

section \<open>Properties of paper note generation\<close>

lemma analyzePaper_loop_calls:
  "i \<le> length chunks \<Longrightarrow>
   analyzePaper_loop title chunks i partialNotes w =
     (case calls_in_order
             (map (\<lambda>(j, chunk). paper_messages title j (length chunks) chunk)
                (enumerate i (drop i chunks))) w of
        (Inl err, w') \<Rightarrow> (Inl err, w')
      | (Inr answers, w') \<Rightarrow>
          (Inr (partialNotes @
                map (\<lambda>(j, answer). PART_HEADING @ decimal (j + 1) @ js ''\<newline>'' @ trim answer)
                  (enumerate i answers)), w'))"
proof (induction title chunks i partialNotes w rule: analyzePaper_loop.induct)
  case (1 title chunks i partialNotes w)
  show ?case
  proof (cases "i < length chunks")
    case False
    with "1.prems" have "drop i chunks = []"
      by simp
    with False show ?thesis
      by (subst analyzePaper_loop.simps) simp
  next
    case True
    let ?messages = "paper_messages title i (length chunks) (chunks ! i)"
    have rest: "drop i chunks = chunks ! i # drop (Suc i) chunks"
      using True by (simp add: Cons_nth_drop_Suc)
    obtain r w' where call:
      "callWithFallback TEXT_MODEL TEXT_FALLBACK_MODEL ?messages [(js ''max_tokens'', JNum (js ''5200''))] w = (r, w')"
      by (cases "callWithFallback TEXT_MODEL TEXT_FALLBACK_MODEL ?messages [(js ''max_tokens'', JNum (js ''5200''))] w")
    show ?thesis
    proof (cases r)
      case (Inl err)
      with call True rest show ?thesis
        by (subst analyzePaper_loop.simps) (simp add: Let_def)
    next
      case (Inr answer)
      have step: "analyzePaper_loop title chunks i partialNotes w =
                  analyzePaper_loop title chunks (i + 1)
                    (partialNotes @ [PART_HEADING @ decimal (i + 1) @ js ''\<newline>'' @ trim answer]) w'"
        using call Inr True by (subst analyzePaper_loop.simps) (simp add: Let_def)
      have "i + 1 \<le> length chunks"
        using True by simp
      from "1.IH" [OF True refl refl call [symmetric] Inr this]
      have "analyzePaper_loop title chunks (i + 1)
              (partialNotes @ [PART_HEADING @ decimal (i + 1) @ js ''\<newline>'' @ trim answer]) w' =
            (case calls_in_order
                    (map (\<lambda>(j, chunk). paper_messages title j (length chunks) chunk)
                       (enumerate (i + 1) (drop (i + 1) chunks))) w' of
               (Inl err, w'') \<Rightarrow> (Inl err, w'')
             | (Inr answers, w'') \<Rightarrow>
                 (Inr ((partialNotes @ [PART_HEADING @ decimal (i + 1) @ js ''\<newline>'' @ trim answer]) @
                       map (\<lambda>(j, answer). PART_HEADING @ decimal (j + 1) @ js ''\<newline>'' @ trim answer)
                         (enumerate (i + 1) answers)), w''))"
        by simp
      with step call Inr rest show ?thesis
        by (auto split: prod.splits sum.splits)
    qed
  qed
qed

lemma requests_to_append:
  "requests_to m (events @ later) = requests_to m events @ requests_to m later"
  by (induction m events rule: requests_to.induct) simp_all

lemma callSiliconChat_trace:
  assumes "hasApiKey (localStorage w)"
    and "callSiliconChat m msgs opts w = (r, w')"
  shows "localStorage w' = localStorage w \<and>
         (\<exists>req. req_model req = m \<and> req_messages req = msgs \<and> req_options req = opts \<and>
                trace w' = trace w @ [Fetch req])"
proof -
  from assms(1) obtain key where "getApiKey (localStorage w) = Some key" "key \<noteq> []"
    by (auto simp add: hasApiKey_def split: option.splits)
  then have "ensureApiKey w = Inr key"
    by (simp add: ensureApiKey_def)
  with assms(2) show ?thesis
    by (auto simp add: callSiliconChat_def fetch_def split: list.splits)
qed

lemma callWithFallback_trace:
  assumes "hasApiKey (localStorage w)"
    and "primaryModel \<noteq> fallbackModel"
    and "callWithFallback primaryModel fallbackModel msgs opts w = (r, w')"
  shows "localStorage w' = localStorage w \<and>
         (\<exists>new. trace w' = trace w @ new \<and> requests_to primaryModel new = [msgs])"
proof -
  obtain r1 w1 where first: "callSiliconChat primaryModel msgs opts w = (r1, w1)"
    by (cases "callSiliconChat primaryModel msgs opts w")
  from callSiliconChat_trace [OF assms(1) first] obtain req1 where
    storage1: "localStorage w1 = localStorage w"
    and req1: "req_model req1 = primaryModel" "req_messages req1 = msgs"
    and trace1: "trace w1 = trace w @ [Fetch req1]"
    by blast
  show ?thesis
  proof (cases r1)
    case (Inr answer)
    with first assms(3) have "w' = w1"
      by (simp add: callWithFallback_def)
    with storage1 req1 trace1 show ?thesis
      by simp
  next
    case (Inl err)
    let ?w2 = "console_warn (primaryModel @ FALLBACK_WARNING @ fallbackModel) err w1"
    from Inl first assms(3) have second: "callSiliconChat fallbackModel msgs opts ?w2 = (r, w')"
      by (simp add: callWithFallback_def)
    have "hasApiKey (localStorage ?w2)"
      using assms(1) storage1 by (simp add: console_warn_def)
    from callSiliconChat_trace [OF this second] obtain req2 where
      "localStorage w' = localStorage ?w2"
      and req2: "req_model req2 = fallbackModel"
      and "trace w' = trace ?w2 @ [Fetch req2]"
      by blast
    then have "localStorage w' = localStorage w"
      and "trace w' = trace w @ [Fetch req1, ConsoleWarn (primaryModel @ FALLBACK_WARNING @ fallbackModel) err, Fetch req2]"
      using storage1 trace1 by (simp_all add: console_warn_def)
    moreover have "requests_to primaryModel
                     [Fetch req1, ConsoleWarn (primaryModel @ FALLBACK_WARNING @ fallbackModel) err, Fetch req2] =
                   [msgs]"
      using req1 req2 assms(2) by simp
    ultimately show ?thesis
      by blast
  qed
qed

lemma models_differ: "TEXT_MODEL \<noteq> TEXT_FALLBACK_MODEL"
  by (simp add: TEXT_MODEL_def TEXT_FALLBACK_MODEL_def js_def)

lemma calls_in_order_trace:
  "hasApiKey (localStorage w) \<Longrightarrow> calls_in_order mss w = (r, w') \<Longrightarrow>
   localStorage w' = localStorage w \<and>
   (\<exists>new. trace w' = trace w @ new \<and>
      (case r of
         Inr answers \<Rightarrow> requests_to TEXT_MODEL new = mss \<and> length answers = length mss
       | Inl err \<Rightarrow> (\<exists>k < length mss. requests_to TEXT_MODEL new = take (Suc k) mss)))"
proof (induction mss arbitrary: w r w')
  case Nil
  then show ?case
    by auto
next
  case (Cons msgs later)
  obtain r1 w1 where first:
    "callWithFallback TEXT_MODEL TEXT_FALLBACK_MODEL msgs [(js ''max_tokens'', JNum (js ''5200''))] w = (r1, w1)"
    by (cases "callWithFallback TEXT_MODEL TEXT_FALLBACK_MODEL msgs [(js ''max_tokens'', JNum (js ''5200''))] w")
  from callWithFallback_trace [OF Cons.prems(1) models_differ first] obtain new1 where
    storage1: "localStorage w1 = localStorage w"
    and trace1: "trace w1 = trace w @ new1"
    and sent1: "requests_to TEXT_MODEL new1 = [msgs]"
    by blast
  show ?case
  proof (cases r1)
    case (Inl err)
    with first Cons.prems(2) have "r = Inl err" "w' = w1"
      by simp_all
    moreover have "requests_to TEXT_MODEL new1 = take (Suc 0) (msgs # later)"
      using sent1 by simp
    ultimately show ?thesis
      using storage1 trace1 by auto
  next
    case (Inr answer)
    obtain r2 w2 where others: "calls_in_order later w1 = (r2, w2)"
      by (cases "calls_in_order later w1")
    have "hasApiKey (localStorage w1)"
      using Cons.prems(1) storage1 by simp
    from Cons.IH [OF this others] obtain new2 where
      storage2: "localStorage w2 = localStorage w1"
      and trace2: "trace w2 = trace w1 @ new2"
      and sent2: "case r2 of
                    Inr answers \<Rightarrow> requests_to TEXT_MODEL new2 = later \<and> length answers = length later
                  | Inl err \<Rightarrow> (\<exists>k < length later. requests_to TEXT_MODEL new2 = take (Suc k) later)"
      by blast
    have whole: "trace w2 = trace w @ (new1 @ new2)"
      using trace1 trace2 by simp
    have sent: "requests_to TEXT_MODEL (new1 @ new2) = msgs # requests_to TEXT_MODEL new2"
      using sent1 by (simp add: requests_to_append)
    show ?thesis
    proof (cases r2)
      case (Inl err)
      with first Inr others Cons.prems(2) have result: "r = Inl err" "w' = w2"
        by simp_all
      from Inl sent2 obtain k where "k < length later" "requests_to TEXT_MODEL new2 = take (Suc k) later"
        by auto
      then have "Suc k < length (msgs # later)"
        "requests_to TEXT_MODEL (new1 @ new2) = take (Suc (Suc k)) (msgs # later)"
        using sent by simp_all
      then show ?thesis
        using result storage1 storage2 whole by auto
    next
      case answers: (Inr answers)
      with first Inr others Cons.prems(2) have result: "r = Inr (answer # answers)" "w' = w2"
        by simp_all
      from answers sent2 sent have "requests_to TEXT_MODEL (new1 @ new2) = msgs # later"
        "length (answer # answers) = length (msgs # later)"
        by simp_all
      then show ?thesis
        using result storage1 storage2 whole by auto
    qed
  qed
qed

lemma slice_from_start:
  "slice text 0 (int n) = take n text"
  by (simp add: slice_def min_def)

lemma two_chunks:
  assumes "length text = 9001"
  shows "splitIntoChunks text NOTE_CHUNK_SIZE NOTE_CHUNK_OVERLAP =
           Some [take 9000 text, drop 8700 text]"
proof -
  have first: "splitIntoChunks_body text 9000 300 0 [] = Continue 8700 [take 9000 text]"
    using assms by (simp add: splitIntoChunks_body_def slice_def)
  have second: "splitIntoChunks_body text 9000 300 8700 [take 9000 text] =
                  Break [take 9000 text, drop 8700 text]"
    using assms by (simp add: splitIntoChunks_body_def slice_def)
  have "splitIntoChunks_loop text 9000 300 8700 [take 9000 text] =
          Some [take 9000 text, drop 8700 text]"
    using assms second by (subst splitIntoChunks_loop.simps) simp
  then have "splitIntoChunks_loop text 9000 300 0 [] = Some [take 9000 text, drop 8700 text]"
    using assms first by (subst splitIntoChunks_loop.simps) simp
  then show ?thesis
    using assms by (simp add: splitIntoChunks_def NOTE_CHUNK_SIZE_def NOTE_CHUNK_OVERLAP_def)
qed

lemma analyzePaper'_call:
  "analyzePaper' pdfText title w =
     callWithFallback TEXT_MODEL TEXT_FALLBACK_MODEL
       (paper_messages' title
          (if 12000 < length pdfText then take 12000 pdfText @ TRUNCATION_MARK else pdfText))
       [(js ''max_tokens'', JNum (js ''4096''))] w"
  using slice_from_start [of pdfText 12000] by (simp add: analyzePaper'_def Let_def)

text \<open>
  C2, as the code has it. The chunking \<open>analyzePaper\<close> returns on every text: it splits
  the text into chunks, at least one, and its result is that of invoking the gateway
  once for each chunk, in chunk order, each call starting in the world the previous one
  has left. When all calls succeed the result is the top-level heading followed by the
  partial notes, each under its part heading with the number of its chunk, in chunk
  order and separated by blank lines; when a call fails the result is that call's
  error, with no note. With a credential stored, the requests that went to the primary
  text model are, on success, exactly the messages of the chunks in chunk order, and on
  failure those of the chunks up to the failing one. The \<open>analyzePaper\<close> of
  \<open>geminiService.ts\<close> is one invocation of the gateway on the text cut at 12000
  characters, and its result, an answer as the provider gave it or an error, is the
  result of that invocation; with a credential stored, one request goes to the primary
  text model.
\<close>

theorem analyzePaper_calls_in_chunk_order:
  "(\<exists>chunks.
     splitIntoChunks pdfText NOTE_CHUNK_SIZE NOTE_CHUNK_OVERLAP = Some chunks \<and> chunks \<noteq> [] \<and>
     analyzePaper pdfText title w =
       Some (case calls_in_order
                    (map (\<lambda>(i, chunk). paper_messages title i (length chunks) chunk)
                       (enumerate 0 chunks)) w of
               (Inl err, w') \<Rightarrow> (Inl err, w')
             | (Inr answers, w') \<Rightarrow>
                 (Inr (NOTES_HEADING @
                       join (js ''\<newline>\<newline>'')
                         (map (\<lambda>(i, answer). PART_HEADING @ decimal (i + 1) @ js ''\<newline>'' @ trim answer)
                            (enumerate 0 answers))), w')) \<and>
     (hasApiKey (localStorage w) \<longrightarrow>
        (\<forall>r w'. analyzePaper pdfText title w = Some (r, w') \<longrightarrow>
           (\<exists>new. trace w' = trace w @ new \<and>
              (case r of
                 Inr joined \<Rightarrow>
                   requests_to TEXT_MODEL new =
                     map (\<lambda>(i, chunk). paper_messages title i (length chunks) chunk)
                       (enumerate 0 chunks)
               | Inl err \<Rightarrow>
                   (\<exists>k < length chunks.
                      requests_to TEXT_MODEL new =
                        take (Suc k)
                          (map (\<lambda>(i, chunk). paper_messages title i (length chunks) chunk)
                             (enumerate 0 chunks)))))))) \<and>
   analyzePaper' pdfText title w =
     callWithFallback TEXT_MODEL TEXT_FALLBACK_MODEL
       (paper_messages' title
          (if 12000 < length pdfText then take 12000 pdfText @ TRUNCATION_MARK else pdfText))
       [(js ''max_tokens'', JNum (js ''4096''))] w \<and>
   (hasApiKey (localStorage w) \<longrightarrow>
      (\<forall>r w'. analyzePaper' pdfText title w = (r, w') \<longrightarrow>
         (\<exists>new. trace w' = trace w @ new \<and>
            requests_to TEXT_MODEL new =
              [paper_messages' title
                 (if 12000 < length pdfText then take 12000 pdfText @ TRUNCATION_MARK
                  else pdfText)])))"
proof -
  have "NOTE_CHUNK_OVERLAP < NOTE_CHUNK_SIZE" "0 \<le> NOTE_CHUNK_SIZE"
    by (simp_all add: NOTE_CHUNK_OVERLAP_def NOTE_CHUNK_SIZE_def)
  with splitIntoChunks_returns [of NOTE_CHUNK_OVERLAP NOTE_CHUNK_SIZE pdfText]
  obtain chunks where
    chunks: "splitIntoChunks pdfText NOTE_CHUNK_SIZE NOTE_CHUNK_OVERLAP = Some chunks"
    and nonempty: "chunks \<noteq> []"
    by blast
  let ?requests = "map (\<lambda>(i, chunk). paper_messages title i (length chunks) chunk) (enumerate 0 chunks)"
  obtain r0 w0 where calls: "calls_in_order ?requests w = (r0, w0)"
    by (cases "calls_in_order ?requests w")
  have loop: "analyzePaper_loop title chunks 0 [] w =
          (case calls_in_order ?requests w of
             (Inl err, w') \<Rightarrow> (Inl err, w')
           | (Inr answers, w') \<Rightarrow>
               (Inr ([] @
                     map (\<lambda>(j, answer). PART_HEADING @ decimal (j + 1) @ js ''\<newline>'' @ trim answer)
                       (enumerate 0 answers)), w'))"
    using analyzePaper_loop_calls [of 0 chunks title "[]" w] by simp
  have whole: "analyzePaper pdfText title w =
       Some (case calls_in_order ?requests w of
               (Inl err, w') \<Rightarrow> (Inl err, w')
             | (Inr answers, w') \<Rightarrow>
                 (Inr (NOTES_HEADING @
                       join (js ''\<newline>\<newline>'')
                         (map (\<lambda>(i, answer). PART_HEADING @ decimal (i + 1) @ js ''\<newline>'' @ trim answer)
                            (enumerate 0 answers))), w'))"
  proof (cases r0)
    case (Inl err)
    with calls loop chunks show ?thesis
      by (simp add: analyzePaper_def)
  next
    case (Inr answers)
    with calls loop chunks show ?thesis
      by (simp add: analyzePaper_def)
  qed
  have sent: "hasApiKey (localStorage w) \<longrightarrow>
        (\<forall>r w'. analyzePaper pdfText title w = Some (r, w') \<longrightarrow>
           (\<exists>new. trace w' = trace w @ new \<and>
              (case r of
                 Inr joined \<Rightarrow> requests_to TEXT_MODEL new = ?requests
               | Inl err \<Rightarrow>
                   (\<exists>k < length chunks. requests_to TEXT_MODEL new = take (Suc k) ?requests))))"
  proof (intro impI allI)
    fix r w'
    assume key: "hasApiKey (localStorage w)"
      and result: "analyzePaper pdfText title w = Some (r, w')"
    from calls_in_order_trace [OF key calls] obtain new where
      new: "trace w0 = trace w @ new"
      and requests: "case r0 of
                 Inr answers \<Rightarrow> requests_to TEXT_MODEL new = ?requests \<and> length answers = length ?requests
               | Inl err \<Rightarrow> (\<exists>k < length ?requests. requests_to TEXT_MODEL new = take (Suc k) ?requests)"
      by blast
    show "\<exists>new. trace w' = trace w @ new \<and>
              (case r of
                 Inr joined \<Rightarrow> requests_to TEXT_MODEL new = ?requests
               | Inl err \<Rightarrow>
                   (\<exists>k < length chunks. requests_to TEXT_MODEL new = take (Suc k) ?requests))"
    proof (cases r0)
      case (Inl err)
      with calls whole result have "r = Inl err" "w' = w0"
        by simp_all
      moreover from Inl requests have
        "\<exists>k < length chunks. requests_to TEXT_MODEL new = take (Suc k) ?requests"
        by simp
      ultimately show ?thesis
        using new by auto
    next
      case (Inr answers)
      with calls whole result obtain joined where "r = Inr joined" "w' = w0"
        by simp
      moreover from Inr requests have "requests_to TEXT_MODEL new = ?requests"
        by simp
      ultimately show ?thesis
        using new by auto
    qed
  qed
  from chunks nonempty whole sent have chunked:
    "\<exists>chunks.
       splitIntoChunks pdfText NOTE_CHUNK_SIZE NOTE_CHUNK_OVERLAP = Some chunks \<and> chunks \<noteq> [] \<and>
       analyzePaper pdfText title w =
         Some (case calls_in_order
                      (map (\<lambda>(i, chunk). paper_messages title i (length chunks) chunk)
                         (enumerate 0 chunks)) w of
                 (Inl err, w') \<Rightarrow> (Inl err, w')
               | (Inr answers, w') \<Rightarrow>
                   (Inr (NOTES_HEADING @
                         join (js ''\<newline>\<newline>'')
                           (map (\<lambda>(i, answer). PART_HEADING @ decimal (i + 1) @ js ''\<newline>'' @ trim answer)
                              (enumerate 0 answers))), w')) \<and>
       (hasApiKey (localStorage w) \<longrightarrow>
          (\<forall>r w'. analyzePaper pdfText title w = Some (r, w') \<longrightarrow>
             (\<exists>new. trace w' = trace w @ new \<and>
                (case r of
                   Inr joined \<Rightarrow>
                     requests_to TEXT_MODEL new =
                       map (\<lambda>(i, chunk). paper_messages title i (length chunks) chunk)
                         (enumerate 0 chunks)
                 | Inl err \<Rightarrow>
                     (\<exists>k < length chunks.
                        requests_to TEXT_MODEL new =
                          take (Suc k)
                            (map (\<lambda>(i, chunk). paper_messages title i (length chunks) chunk)
                               (enumerate 0 chunks)))))))"
    by blast
  let ?single = "paper_messages' title
          (if 12000 < length pdfText then take 12000 pdfText @ TRUNCATION_MARK else pdfText)"
  have single: "analyzePaper' pdfText title w =
     callWithFallback TEXT_MODEL TEXT_FALLBACK_MODEL ?single [(js ''max_tokens'', JNum (js ''4096''))] w"
    by (rule analyzePaper'_call)
  have single_sent: "hasApiKey (localStorage w) \<longrightarrow>
      (\<forall>r w'. analyzePaper' pdfText title w = (r, w') \<longrightarrow>
         (\<exists>new. trace w' = trace w @ new \<and> requests_to TEXT_MODEL new = [?single]))"
  proof (intro impI allI)
    fix r w'
    assume key: "hasApiKey (localStorage w)" and "analyzePaper' pdfText title w = (r, w')"
    with single have "callWithFallback TEXT_MODEL TEXT_FALLBACK_MODEL ?single
                        [(js ''max_tokens'', JNum (js ''4096''))] w = (r, w')"
      by simp
    from callWithFallback_trace [OF key models_differ this]
    show "\<exists>new. trace w' = trace w @ new \<and> requests_to TEXT_MODEL new = [?single]"
      by blast
  qed
  from chunked single single_sent show ?thesis
    by (intro conjI)
qed

theorem analyzePaper_calls_in_chunk_order_witness:
  "hasApiKey (localStorage
     \<lparr>localStorage = Some [STORAGE_KEY \<mapsto> js ''sk-1''],
      network = [\<lambda>req. Response True (js ''OK'')
           (Some (JObj [(js ''choices'',
              JArr [JObj [(js ''message'', JObj [(js ''content'', JStr (js '' First. ''))])]])])),
         \<lambda>req. Response True (js ''OK'')
           (Some (JObj [(js ''choices'',
              JArr [JObj [(js ''message'', JObj [(js ''content'', JStr (js ''Second.''))])]])]))],
      trace = []\<rparr>) \<and>
   analyzePaper (replicate 9001 97) None
     \<lparr>localStorage = Some [STORAGE_KEY \<mapsto> js ''sk-1''],
      network = [\<lambda>req. Response True (js ''OK'')
           (Some (JObj [(js ''choices'',
              JArr [JObj [(js ''message'', JObj [(js ''content'', JStr (js '' First. ''))])]])])),
         \<lambda>req. Response True (js ''OK'')
           (Some (JObj [(js ''choices'',
              JArr [JObj [(js ''message'', JObj [(js ''content'', JStr (js ''Second.''))])]])]))],
      trace = []\<rparr> =
     Some (Inr (NOTES_HEADING @ PART_HEADING @ js ''1\<newline>First.'' @ js ''\<newline>\<newline>'' @ PART_HEADING @ js ''2\<newline>Second.''),
     \<lparr>localStorage = Some [STORAGE_KEY \<mapsto> js ''sk-1''],
      network = [],
      trace = [Fetch \<lparr>url = BASE_URL @ js ''/chat/completions'', authorization = js ''Bearer sk-1'',
               req_model = TEXT_MODEL, req_messages = paper_messages None 0 2 (take 9000 (replicate 9001 97)),
               req_options = [(js ''max_tokens'', JNum (js ''5200''))]\<rparr>,
         Fetch \<lparr>url = BASE_URL @ js ''/chat/completions'', authorization = js ''Bearer sk-1'',
               req_model = TEXT_MODEL, req_messages = paper_messages None 1 2 (drop 8700 (replicate 9001 97)),
               req_options = [(js ''max_tokens'', JNum (js ''5200''))]\<rparr>]\<rparr>) \<and>
   hasApiKey (localStorage
     \<lparr>localStorage = Some [STORAGE_KEY \<mapsto> js ''sk-1''],
      network = [\<lambda>req. Response True (js ''OK'')
           (Some (JObj [(js ''choices'',
              JArr [JObj [(js ''message'', JObj [(js ''content'', JStr (js '' First. ''))])]])]))],
      trace = []\<rparr>) \<and>
   analyzePaper (replicate 9001 97) None
     \<lparr>localStorage = Some [STORAGE_KEY \<mapsto> js ''sk-1''],
      network = [\<lambda>req. Response True (js ''OK'')
           (Some (JObj [(js ''choices'',
              JArr [JObj [(js ''message'', JObj [(js ''content'', JStr (js '' First. ''))])]])]))],
      trace = []\<rparr> =
     Some (Inl TypeError,
     \<lparr>localStorage = Some [STORAGE_KEY \<mapsto> js ''sk-1''],
      network = [],
      trace = [Fetch \<lparr>url = BASE_URL @ js ''/chat/completions'', authorization = js ''Bearer sk-1'',
               req_model = TEXT_MODEL, req_messages = paper_messages None 0 2 (take 9000 (replicate 9001 97)),
               req_options = [(js ''max_tokens'', JNum (js ''5200''))]\<rparr>,
         Fetch \<lparr>url = BASE_URL @ js ''/chat/completions'', authorization = js ''Bearer sk-1'',
               req_model = TEXT_MODEL, req_messages = paper_messages None 1 2 (drop 8700 (replicate 9001 97)),
               req_options = [(js ''max_tokens'', JNum (js ''5200''))]\<rparr>,
         ConsoleWarn (TEXT_MODEL @ FALLBACK_WARNING @ TEXT_FALLBACK_MODEL) TypeError,
         Fetch \<lparr>url = BASE_URL @ js ''/chat/completions'', authorization = js ''Bearer sk-1'',
               req_model = TEXT_FALLBACK_MODEL, req_messages = paper_messages None 1 2 (drop 8700 (replicate 9001 97)),
               req_options = [(js ''max_tokens'', JNum (js ''5200''))]\<rparr>]\<rparr>)"
proof -
  define T :: jsstring where "T = replicate 9001 97"
  have len: "length T = 9001"
    by (simp add: T_def)
  have split: "splitIntoChunks T NOTE_CHUNK_SIZE NOTE_CHUNK_OVERLAP = Some [take 9000 T, drop 8700 T]"
    by (rule two_chunks [OF len])
  have facts: "js ''choices'' \<noteq> js ''message''" "js ''sk-1'' \<noteq> []" "js '' First. '' \<noteq> []"
    "js ''Second.'' \<noteq> []" "js ''First.'' \<noteq> []"
    "js ''Bearer '' @ js ''sk-1'' = js ''Bearer sk-1''"
    by (simp_all add: js_def)
  have answers: "trim (js '' First. '') = js ''First.''" "trim (js ''Second.'') = js ''Second.''"
    by (simp_all add: trim_def js_def is_whitespace_def)
  have digits: "decimal (Suc 0) = js ''1''" "decimal 2 = js ''2''" "decimal (Suc (Suc 0)) = js ''2''"
    by (subst decimal.simps, simp add: js_def)+
  have glue: "js ''1'' @ js ''\<newline>'' @ js ''First.'' = js ''1\<newline>First.''"
    "js ''2'' @ js ''\<newline>'' @ js ''Second.'' = js ''2\<newline>Second.''"
    by (simp_all add: js_def)
  have key2: "hasApiKey (localStorage
     \<lparr>localStorage = Some [STORAGE_KEY \<mapsto> js ''sk-1''],
      network = [\<lambda>req. Response True (js ''OK'')
           (Some (JObj [(js ''choices'',
              JArr [JObj [(js ''message'', JObj [(js ''content'', JStr (js '' First. ''))])]])])),
         \<lambda>req. Response True (js ''OK'')
           (Some (JObj [(js ''choices'',
              JArr [JObj [(js ''message'', JObj [(js ''content'', JStr (js ''Second.''))])]])]))],
      trace = []\<rparr>)"
    by (simp add: hasApiKey_def getApiKey_def js_def)
  have key1: "hasApiKey (localStorage
     \<lparr>localStorage = Some [STORAGE_KEY \<mapsto> js ''sk-1''],
      network = [\<lambda>req. Response True (js ''OK'')
           (Some (JObj [(js ''choices'',
              JArr [JObj [(js ''message'', JObj [(js ''content'', JStr (js '' First. ''))])]])]))],
      trace = []\<rparr>)"
    by (simp add: hasApiKey_def getApiKey_def js_def)
  have calls2: "calls_in_order [paper_messages None 0 2 (take 9000 (T)), paper_messages None 1 2 (drop 8700 (T))]
     \<lparr>localStorage = Some [STORAGE_KEY \<mapsto> js ''sk-1''],
      network = [\<lambda>req. Response True (js ''OK'')
           (Some (JObj [(js ''choices'',
              JArr [JObj [(js ''message'', JObj [(js ''content'', JStr (js '' First. ''))])]])])),
         \<lambda>req. Response True (js ''OK'')
           (Some (JObj [(js ''choices'',
              JArr [JObj [(js ''message'', JObj [(js ''content'', JStr (js ''Second.''))])]])]))],
      trace = []\<rparr> =
     (Inr [js '' First. '', js ''Second.''],
     \<lparr>localStorage = Some [STORAGE_KEY \<mapsto> js ''sk-1''],
      network = [],
      trace = [Fetch \<lparr>url = BASE_URL @ js ''/chat/completions'', authorization = js ''Bearer sk-1'',
               req_model = TEXT_MODEL, req_messages = paper_messages None 0 2 (take 9000 (T)),
               req_options = [(js ''max_tokens'', JNum (js ''5200''))]\<rparr>,
         Fetch \<lparr>url = BASE_URL @ js ''/chat/completions'', authorization = js ''Bearer sk-1'',
               req_model = TEXT_MODEL, req_messages = paper_messages None 1 2 (drop 8700 (T)),
               req_options = [(js ''max_tokens'', JNum (js ''5200''))]\<rparr>]\<rparr>)"
    using facts answers
    by (simp add: callWithFallback_def callSiliconChat_def ensureApiKey_def getApiKey_def
        fetch_def read_completion_def)
  have calls1: "calls_in_order [paper_messages None 0 2 (take 9000 (T)), paper_messages None 1 2 (drop 8700 (T))]
     \<lparr>localStorage = Some [STORAGE_KEY \<mapsto> js ''sk-1''],
      network = [\<lambda>req. Response True (js ''OK'')
           (Some (JObj [(js ''choices'',
              JArr [JObj [(js ''message'', JObj [(js ''content'', JStr (js '' First. ''))])]])]))],
      trace = []\<rparr> =
     (Inl TypeError,
     \<lparr>localStorage = Some [STORAGE_KEY \<mapsto> js ''sk-1''],
      network = [],
      trace = [Fetch \<lparr>url = BASE_URL @ js ''/chat/completions'', authorization = js ''Bearer sk-1'',
               req_model = TEXT_MODEL, req_messages = paper_messages None 0 2 (take 9000 (T)),
               req_options = [(js ''max_tokens'', JNum (js ''5200''))]\<rparr>,
         Fetch \<lparr>url = BASE_URL @ js ''/chat/completions'', authorization = js ''Bearer sk-1'',
               req_model = TEXT_MODEL, req_messages = paper_messages None 1 2 (drop 8700 (T)),
               req_options = [(js ''max_tokens'', JNum (js ''5200''))]\<rparr>,
         ConsoleWarn (TEXT_MODEL @ FALLBACK_WARNING @ TEXT_FALLBACK_MODEL) TypeError,
         Fetch \<lparr>url = BASE_URL @ js ''/chat/completions'', authorization = js ''Bearer sk-1'',
               req_model = TEXT_FALLBACK_MODEL, req_messages = paper_messages None 1 2 (drop 8700 (T)),
               req_options = [(js ''max_tokens'', JNum (js ''5200''))]\<rparr>]\<rparr>)"
    using facts answers
    by (simp add: callWithFallback_def callSiliconChat_def ensureApiKey_def getApiKey_def
        fetch_def read_completion_def console_warn_def)
  have requests: "map (\<lambda>(i, chunk). paper_messages None i (length [take 9000 T, drop 8700 T]) chunk)
                    (enumerate 0 [take 9000 T, drop 8700 T]) = [paper_messages None 0 2 (take 9000 (T)), paper_messages None 1 2 (drop 8700 (T))]"
    by (simp add: numeral_2_eq_2)
  from analyzePaper_calls_in_chunk_order [of T None
     "\<lparr>localStorage = Some [STORAGE_KEY \<mapsto> js ''sk-1''],
      network = [\<lambda>req. Response True (js ''OK'')
           (Some (JObj [(js ''choices'',
              JArr [JObj [(js ''message'', JObj [(js ''content'', JStr (js '' First. ''))])]])])),
         \<lambda>req. Response True (js ''OK'')
           (Some (JObj [(js ''choices'',
              JArr [JObj [(js ''message'', JObj [(js ''content'', JStr (js ''Second.''))])]])]))],
      trace = []\<rparr>"]
  obtain chunks where
    "splitIntoChunks T NOTE_CHUNK_SIZE NOTE_CHUNK_OVERLAP = Some chunks"
    and whole2: "analyzePaper T None
     \<lparr>localStorage = Some [STORAGE_KEY \<mapsto> js ''sk-1''],
      network = [\<lambda>req. Response True (js ''OK'')
           (Some (JObj [(js ''choices'',
              JArr [JObj [(js ''message'', JObj [(js ''content'', JStr (js '' First. ''))])]])])),
         \<lambda>req. Response True (js ''OK'')
           (Some (JObj [(js ''choices'',
              JArr [JObj [(js ''message'', JObj [(js ''content'', JStr (js ''Second.''))])]])]))],
      trace = []\<rparr> =
       Some (case calls_in_order
                    (map (\<lambda>(i, chunk). paper_messages None i (length chunks) chunk)
                       (enumerate 0 chunks))
     \<lparr>localStorage = Some [STORAGE_KEY \<mapsto> js ''sk-1''],
      network = [\<lambda>req. Response True (js ''OK'')
           (Some (JObj [(js ''choices'',
              JArr [JObj [(js ''message'', JObj [(js ''content'', JStr (js '' First. ''))])]])])),
         \<lambda>req. Response True (js ''OK'')
           (Some (JObj [(js ''choices'',
              JArr [JObj [(js ''message'', JObj [(js ''content'', JStr (js ''Second.''))])]])]))],
      trace = []\<rparr> of
               (Inl err, w') \<Rightarrow> (Inl err, w')
             | (Inr answers, w') \<Rightarrow>
                 (Inr (NOTES_HEADING @
                       join (js ''\<newline>\<newline>'')
                         (map (\<lambda>(i, answer). PART_HEADING @ decimal (i + 1) @ js ''\<newline>'' @ trim answer)
                            (enumerate 0 answers))), w'))"
    by blast
  with split have chunks2: "chunks = [take 9000 T, drop 8700 T]"
    by simp
  have done2: "analyzePaper T None
     \<lparr>localStorage = Some [STORAGE_KEY \<mapsto> js ''sk-1''],
      network = [\<lambda>req. Response True (js ''OK'')
           (Some (JObj [(js ''choices'',
              JArr [JObj [(js ''message'', JObj [(js ''content'', JStr (js '' First. ''))])]])])),
         \<lambda>req. Response True (js ''OK'')
           (Some (JObj [(js ''choices'',
              JArr [JObj [(js ''message'', JObj [(js ''content'', JStr (js ''Second.''))])]])]))],
      trace = []\<rparr> =
     Some (Inr (NOTES_HEADING @ PART_HEADING @ js ''1\<newline>First.'' @ js ''\<newline>\<newline>'' @ PART_HEADING @ js ''2\<newline>Second.''),
     \<lparr>localStorage = Some [STORAGE_KEY \<mapsto> js ''sk-1''],
      network = [],
      trace = [Fetch \<lparr>url = BASE_URL @ js ''/chat/completions'', authorization = js ''Bearer sk-1'',
               req_model = TEXT_MODEL, req_messages = paper_messages None 0 2 (take 9000 (T)),
               req_options = [(js ''max_tokens'', JNum (js ''5200''))]\<rparr>,
         Fetch \<lparr>url = BASE_URL @ js ''/chat/completions'', authorization = js ''Bearer sk-1'',
               req_model = TEXT_MODEL, req_messages = paper_messages None 1 2 (drop 8700 (T)),
               req_options = [(js ''max_tokens'', JNum (js ''5200''))]\<rparr>]\<rparr>)"
    unfolding whole2 chunks2 requests calls2 using answers digits glue by simp
  from analyzePaper_calls_in_chunk_order [of T None
     "\<lparr>localStorage = Some [STORAGE_KEY \<mapsto> js ''sk-1''],
      network = [\<lambda>req. Response True (js ''OK'')
           (Some (JObj [(js ''choices'',
              JArr [JObj [(js ''message'', JObj [(js ''content'', JStr (js '' First. ''))])]])]))],
      trace = []\<rparr>"]
  obtain chunks' where
    "splitIntoChunks T NOTE_CHUNK_SIZE NOTE_CHUNK_OVERLAP = Some chunks'"
    and whole1: "analyzePaper T None
     \<lparr>localStorage = Some [STORAGE_KEY \<mapsto> js ''sk-1''],
      network = [\<lambda>req. Response True (js ''OK'')
           (Some (JObj [(js ''choices'',
              JArr [JObj [(js ''message'', JObj [(js ''content'', JStr (js '' First. ''))])]])]))],
      trace = []\<rparr> =
       Some (case calls_in_order
                    (map (\<lambda>(i, chunk). paper_messages None i (length chunks') chunk)
                       (enumerate 0 chunks'))
     \<lparr>localStorage = Some [STORAGE_KEY \<mapsto> js ''sk-1''],
      network = [\<lambda>req. Response True (js ''OK'')
           (Some (JObj [(js ''choices'',
              JArr [JObj [(js ''message'', JObj [(js ''content'', JStr (js '' First. ''))])]])]))],
      trace = []\<rparr> of
               (Inl err, w') \<Rightarrow> (Inl err, w')
             | (Inr answers, w') \<Rightarrow>
                 (Inr (NOTES_HEADING @
                       join (js ''\<newline>\<newline>'')
                         (map (\<lambda>(i, answer). PART_HEADING @ decimal (i + 1) @ js ''\<newline>'' @ trim answer)
                            (enumerate 0 answers))), w'))"
    by blast
  with split have chunks1: "chunks' = [take 9000 T, drop 8700 T]"
    by simp
  have done1: "analyzePaper T None
     \<lparr>localStorage = Some [STORAGE_KEY \<mapsto> js ''sk-1''],
      network = [\<lambda>req. Response True (js ''OK'')
           (Some (JObj [(js ''choices'',
              JArr [JObj [(js ''message'', JObj [(js ''content'', JStr (js '' First. ''))])]])]))],
      trace = []\<rparr> =
     Some (Inl TypeError,
     \<lparr>localStorage = Some [STORAGE_KEY \<mapsto> js ''sk-1''],
      network = [],
      trace = [Fetch \<lparr>url = BASE_URL @ js ''/chat/completions'', authorization = js ''Bearer sk-1'',
               req_model = TEXT_MODEL, req_messages = paper_messages None 0 2 (take 9000 (T)),
               req_options = [(js ''max_tokens'', JNum (js ''5200''))]\<rparr>,
         Fetch \<lparr>url = BASE_URL @ js ''/chat/completions'', authorization = js ''Bearer sk-1'',
               req_model = TEXT_MODEL, req_messages = paper_messages None 1 2 (drop 8700 (T)),
               req_options = [(js ''max_tokens'', JNum (js ''5200''))]\<rparr>,
         ConsoleWarn (TEXT_MODEL @ FALLBACK_WARNING @ TEXT_FALLBACK_MODEL) TypeError,
         Fetch \<lparr>url = BASE_URL @ js ''/chat/completions'', authorization = js ''Bearer sk-1'',
               req_model = TEXT_FALLBACK_MODEL, req_messages = paper_messages None 1 2 (drop 8700 (T)),
               req_options = [(js ''max_tokens'', JNum (js ''5200''))]\<rparr>]\<rparr>)"
    unfolding whole1 chunks1 requests calls1 by simp
  from key2 done2 key1 done1 show ?thesis
    unfolding T_def by (intro conjI)
qed

text \<open>
  C2 as stated does not hold of the \<open>analyzePaper\<close> of \<open>geminiService.ts\<close>. A text of
  9001 characters makes two chunks, yet one request is sent, with the whole text, and
  what comes back is the provider's answer as it is: untrimmed, under no heading.
\<close>

theorem analyzePaper_single_call_counterexample:
  "splitIntoChunks (replicate 9001 (97::nat)) NOTE_CHUNK_SIZE NOTE_CHUNK_OVERLAP =
     Some [take 9000 (replicate 9001 (97::nat)), drop 8700 (replicate 9001 (97::nat))] \<and>
   analyzePaper' (replicate 9001 (97::nat)) None
     \<lparr>localStorage = Some [STORAGE_KEY \<mapsto> js ''sk-1''],
      network = [\<lambda>req. Response True (js ''OK'')
           (Some (JObj [(js ''choices'',
              JArr [JObj [(js ''message'', JObj [(js ''content'', JStr (js '' A note. ''))])]])]))],
      trace = []\<rparr> =
     (Inr (js '' A note. ''),
     \<lparr>localStorage = Some [STORAGE_KEY \<mapsto> js ''sk-1''],
      network = [],
      trace = [Fetch \<lparr>url = BASE_URL @ js ''/chat/completions'', authorization = js ''Bearer sk-1'',
               req_model = TEXT_MODEL, req_messages = paper_messages' None (replicate 9001 (97::nat)),
               req_options = [(js ''max_tokens'', JNum (js ''4096''))]\<rparr>]\<rparr>) \<and>
   take (length NOTES_HEADING) (js '' A note. '') \<noteq> NOTES_HEADING"
proof -
  define T :: jsstring where "T = replicate 9001 97"
  have len: "length T = 9001"
    by (simp add: T_def)
  have split: "splitIntoChunks T NOTE_CHUNK_SIZE NOTE_CHUNK_OVERLAP = Some [take 9000 T, drop 8700 T]"
    by (rule two_chunks [OF len])
  have facts: "js ''choices'' \<noteq> js ''message''" "js ''sk-1'' \<noteq> []" "js '' A note. '' \<noteq> []"
    "js ''Bearer '' @ js ''sk-1'' = js ''Bearer sk-1''"
    by (simp_all add: js_def)
  have answer: "trim (js '' A note. '') \<noteq> []"
    by (simp add: trim_Nil_iff js_def is_whitespace_def)
  have single: "analyzePaper' T None
     \<lparr>localStorage = Some [STORAGE_KEY \<mapsto> js ''sk-1''],
      network = [\<lambda>req. Response True (js ''OK'')
           (Some (JObj [(js ''choices'',
              JArr [JObj [(js ''message'', JObj [(js ''content'', JStr (js '' A note. ''))])]])]))],
      trace = []\<rparr> =
     (Inr (js '' A note. ''),
     \<lparr>localStorage = Some [STORAGE_KEY \<mapsto> js ''sk-1''],
      network = [],
      trace = [Fetch \<lparr>url = BASE_URL @ js ''/chat/completions'', authorization = js ''Bearer sk-1'',
               req_model = TEXT_MODEL, req_messages = paper_messages' None (T),
               req_options = [(js ''max_tokens'', JNum (js ''4096''))]\<rparr>]\<rparr>)"
    using facts answer len
    by (simp add: analyzePaper'_call callWithFallback_def callSiliconChat_def ensureApiKey_def
        getApiKey_def fetch_def read_completion_def)
  have heading: "take (length NOTES_HEADING) (js '' A note. '') \<noteq> NOTES_HEADING"
    by (simp add: NOTES_HEADING_def js_def)
  from split single heading show ?thesis
    unfolding T_def by (intro conjI)
qed

section \<open>Properties of formula extraction\<close>

lemma get_prop_Some:
  assumes "get_prop (Some parsed) name = Some v"
  shows "\<exists>outer. parsed = JObj outer \<and> map_of outer name = Some v"
  using assms by (cases parsed) simp_all

lemma trimmed_member_Inl:
  assumes "trimmed_member parsed name = Inl err"
  shows "err = TypeError \<and>
         (parsed = JNull \<or>
          (\<exists>outer inner v. parsed = JObj outer \<and> map_of outer name = Some (JObj inner) \<and>
                           map_of inner (js ''trim'') = Some v \<and> v \<noteq> JNull))"
proof (cases "parsed = JNull")
  case True
  with assms show ?thesis
    by (simp add: trimmed_member_def)
next
  case False
  show ?thesis
  proof (cases "get_prop (Some parsed) name")
    case None
    with assms False show ?thesis
      by (simp add: trimmed_member_def)
  next
    case (Some member)
    show ?thesis
    proof (cases member)
      case (JObj inner)
      from get_prop_Some [OF Some] JObj obtain outer where
        outer: "parsed = JObj outer" "map_of outer name = Some (JObj inner)"
        by blast
      have "trimmed_member parsed name =
              (case map_of inner (js ''trim'') of
                 None \<Rightarrow> Inr []
               | Some v \<Rightarrow> if v = JNull then Inr [] else Inl TypeError)"
        using False Some JObj by (simp add: trimmed_member_def)
      from this [symmetric] assms have
        "(case map_of inner (js ''trim'') of
            None \<Rightarrow> Inr []
          | Some v \<Rightarrow> if v = JNull then Inr [] else Inl TypeError) = (Inl err :: error + jsstring)"
        by (rule trans)
      then obtain v where "map_of inner (js ''trim'') = Some v" "v \<noteq> JNull" "err = TypeError"
        by (cases "map_of inner (js ''trim'')") (simp_all split: if_splits)
      with outer show ?thesis
        by blast
    qed (use assms False Some in \<open>simp_all add: trimmed_member_def\<close>)
  qed
qed

lemma trimmed_member_Inr:
  assumes "trimmed_member parsed name = Inr s"
  shows "s = (case get_prop (Some parsed) name of Some (JStr t) \<Rightarrow> trim t | _ \<Rightarrow> [])"
proof (cases "parsed = JNull")
  case True
  with assms show ?thesis
    by (simp add: trimmed_member_def)
next
  case False
  show ?thesis
  proof (cases "get_prop (Some parsed) name")
    case None
    with assms False show ?thesis
      by (simp add: trimmed_member_def)
  next
    case (Some member)
    show ?thesis
    proof (cases member)
      case (JObj inner)
      have "trimmed_member parsed name =
              (case map_of inner (js ''trim'') of
                 None \<Rightarrow> Inr []
               | Some v \<Rightarrow> if v = JNull then Inr [] else Inl TypeError)"
        using False Some JObj by (simp add: trimmed_member_def)
      from this [symmetric] assms have
        "(case map_of inner (js ''trim'') of
            None \<Rightarrow> Inr []
          | Some v \<Rightarrow> if v = JNull then Inr [] else Inl TypeError) = (Inr s :: error + jsstring)"
        by (rule trans)
      then have "s = []"
        by (cases "map_of inner (js ''trim'')") (simp_all split: if_splits)
      with Some JObj show ?thesis
        by simp
    qed (use assms False Some in \<open>simp_all add: trimmed_member_def\<close>)
  qed
qed

lemma trimmed_member_throws:
  assumes "map_of outer name = Some (JObj inner)"
    and "map_of inner (js ''trim'') = Some v" and "v \<noteq> JNull"
  shows "trimmed_member (JObj outer) name = Inl TypeError"
  using assms by (simp add: trimmed_member_def)

lemma parseFormulaJson_cases:
  "parseFormulaJson JSON_parse text w =
     (case JSON_parse text of
        None \<Rightarrow> (Inl (Error UNEXPECTED_FORMAT_MESSAGE),
                 console_error PARSE_FAILED_MESSAGE SyntaxError text w)
      | Some parsed \<Rightarrow>
          (case trimmed_member parsed (js ''latex'') of
             Inl err \<Rightarrow> (Inl (Error UNEXPECTED_FORMAT_MESSAGE),
                         console_error PARSE_FAILED_MESSAGE err text w)
           | Inr l \<Rightarrow>
               (case trimmed_member parsed (js ''explanation'') of
                  Inl err \<Rightarrow> (Inl (Error UNEXPECTED_FORMAT_MESSAGE),
                              console_error PARSE_FAILED_MESSAGE err text w)
                | Inr e \<Rightarrow> (Inr \<lparr>latex = l, explanation = e\<rparr>, w))))"
  by (simp add: parseFormulaJson_def split: option.split sum.split)

text \<open>
  C5, as the code has it. When the text cannot be parsed as JSON, \<open>parseFormulaJson\<close>
  fails with the unexpected-format error and produces no result; so it does when the
  text parses to \<open>null\<close>, and when it parses to an object in which \<open>latex\<close> or
  \<open>explanation\<close> is an object with a member \<open>trim\<close> that is not \<open>null\<close>. Every failure
  is that error, and it occurs in these three cases and in no other. In every other
  case a result is produced, nothing is logged, and each of \<open>latex\<close> and
  \<open>explanation\<close> is the trimmed string member of that name, or the empty string where
  the parsed value has no string member of that name.
\<close>

theorem parseFormulaJson_failures:
  "(JSON_parse text = None \<longrightarrow>
      parseFormulaJson JSON_parse text w =
        (Inl (Error UNEXPECTED_FORMAT_MESSAGE),
         console_error PARSE_FAILED_MESSAGE SyntaxError text w)) \<and>
   (JSON_parse text = Some JNull \<longrightarrow>
      parseFormulaJson JSON_parse text w =
        (Inl (Error UNEXPECTED_FORMAT_MESSAGE),
         console_error PARSE_FAILED_MESSAGE TypeError text w)) \<and>
   (\<forall>outer inner v.
      JSON_parse text = Some (JObj outer) \<and>
      (map_of outer (js ''latex'') = Some (JObj inner) \<or>
       map_of outer (js ''explanation'') = Some (JObj inner)) \<and>
      map_of inner (js ''trim'') = Some v \<and> v \<noteq> JNull \<longrightarrow>
      parseFormulaJson JSON_parse text w =
        (Inl (Error UNEXPECTED_FORMAT_MESSAGE),
         console_error PARSE_FAILED_MESSAGE TypeError text w)) \<and>
   (\<forall>err w'. parseFormulaJson JSON_parse text w = (Inl err, w') \<longrightarrow>
      err = Error UNEXPECTED_FORMAT_MESSAGE \<and>
      (JSON_parse text = None \<or> JSON_parse text = Some JNull \<or>
       (\<exists>outer inner v.
          JSON_parse text = Some (JObj outer) \<and>
          (map_of outer (js ''latex'') = Some (JObj inner) \<or>
           map_of outer (js ''explanation'') = Some (JObj inner)) \<and>
          map_of inner (js ''trim'') = Some v \<and> v \<noteq> JNull))) \<and>
   (\<forall>result w'. parseFormulaJson JSON_parse text w = (Inr result, w') \<longrightarrow>
      w' = w \<and>
      (\<exists>parsed. JSON_parse text = Some parsed \<and>
         latex result =
           (case get_prop (Some parsed) (js ''latex'') of Some (JStr t) \<Rightarrow> trim t | _ \<Rightarrow> []) \<and>
         explanation result =
           (case get_prop (Some parsed) (js ''explanation'') of
              Some (JStr t) \<Rightarrow> trim t | _ \<Rightarrow> [])))"
proof (intro conjI allI impI)
  assume "JSON_parse text = None"
  then show "parseFormulaJson JSON_parse text w =
               (Inl (Error UNEXPECTED_FORMAT_MESSAGE),
                console_error PARSE_FAILED_MESSAGE SyntaxError text w)"
    by (simp add: parseFormulaJson_cases)
next
  assume "JSON_parse text = Some JNull"
  moreover have "trimmed_member JNull (js ''latex'') = Inl TypeError"
    by (simp add: trimmed_member_def)
  ultimately show "parseFormulaJson JSON_parse text w =
               (Inl (Error UNEXPECTED_FORMAT_MESSAGE),
                console_error PARSE_FAILED_MESSAGE TypeError text w)"
    by (simp add: parseFormulaJson_cases)
next
  fix outer inner v
  assume object: "JSON_parse text = Some (JObj outer) \<and>
      (map_of outer (js ''latex'') = Some (JObj inner) \<or>
       map_of outer (js ''explanation'') = Some (JObj inner)) \<and>
      map_of inner (js ''trim'') = Some v \<and> v \<noteq> JNull"
  then have parsed: "JSON_parse text = Some (JObj outer)"
    and inner: "map_of inner (js ''trim'') = Some v" "v \<noteq> JNull"
    and field: "map_of outer (js ''latex'') = Some (JObj inner) \<or>
                map_of outer (js ''explanation'') = Some (JObj inner)"
    by blast+
  show "parseFormulaJson JSON_parse text w =
          (Inl (Error UNEXPECTED_FORMAT_MESSAGE),
           console_error PARSE_FAILED_MESSAGE TypeError text w)"
  proof (cases "trimmed_member (JObj outer) (js ''latex'')")
    case (Inl err)
    from trimmed_member_Inl [OF Inl] have "err = TypeError"
      by blast
    with Inl parsed show ?thesis
      by (simp add: parseFormulaJson_cases)
  next
    case (Inr l)
    from field have "map_of outer (js ''explanation'') = Some (JObj inner)"
    proof
      assume "map_of outer (js ''latex'') = Some (JObj inner)"
      from trimmed_member_throws [OF this inner] Inr show ?thesis
        by simp
    qed
    from trimmed_member_throws [OF this inner] Inr parsed show ?thesis
      by (simp add: parseFormulaJson_cases)
  qed
next
  fix err w'
  assume failed: "parseFormulaJson JSON_parse text w = (Inl err, w')"
  show "err = Error UNEXPECTED_FORMAT_MESSAGE"
  proof (cases "JSON_parse text")
    case None
    with failed show ?thesis
      by (simp add: parseFormulaJson_cases)
  next
    case (Some parsed)
    with failed show ?thesis
      by (cases "trimmed_member parsed (js ''latex'')";
          cases "trimmed_member parsed (js ''explanation'')")
         (simp_all add: parseFormulaJson_cases)
  qed
  show "JSON_parse text = None \<or> JSON_parse text = Some JNull \<or>
        (\<exists>outer inner v.
           JSON_parse text = Some (JObj outer) \<and>
           (map_of outer (js ''latex'') = Some (JObj inner) \<or>
            map_of outer (js ''explanation'') = Some (JObj inner)) \<and>
           map_of inner (js ''trim'') = Some v \<and> v \<noteq> JNull)"
  proof (cases "JSON_parse text")
    case None
    then show ?thesis by simp
  next
    case (Some parsed)
    with failed have "(\<exists>e. trimmed_member parsed (js ''latex'') = Inl e) \<or>
                      (\<exists>e. trimmed_member parsed (js ''explanation'') = Inl e)"
      by (cases "trimmed_member parsed (js ''latex'')";
          cases "trimmed_member parsed (js ''explanation'')")
         (simp_all add: parseFormulaJson_cases)
    then show ?thesis
    proof
      assume "\<exists>e. trimmed_member parsed (js ''latex'') = Inl e"
      then obtain e where "trimmed_member parsed (js ''latex'') = Inl e" ..
      from trimmed_member_Inl [OF this] Some show ?thesis
        by blast
    next
      assume "\<exists>e. trimmed_member parsed (js ''explanation'') = Inl e"
      then obtain e where "trimmed_member parsed (js ''explanation'') = Inl e" ..
      from trimmed_member_Inl [OF this] Some show ?thesis
        by blast
    qed
  qed
next
  fix result w'
  assume returned: "parseFormulaJson JSON_parse text w = (Inr result, w')"
  then obtain parsed where parsed: "JSON_parse text = Some parsed"
    by (cases "JSON_parse text") (simp_all add: parseFormulaJson_cases)
  from returned parsed obtain l where l: "trimmed_member parsed (js ''latex'') = Inr l"
    by (cases "trimmed_member parsed (js ''latex'')") (simp_all add: parseFormulaJson_cases)
  from returned parsed l obtain e where e: "trimmed_member parsed (js ''explanation'') = Inr e"
    by (cases "trimmed_member parsed (js ''explanation'')") (simp_all add: parseFormulaJson_cases)
  from returned parsed l e have result: "result = \<lparr>latex = l, explanation = e\<rparr>" and same: "w' = w"
    by (simp_all add: parseFormulaJson_cases)
  show "w' = w"
    by (rule same)
  have "latex result =
          (case get_prop (Some parsed) (js ''latex'') of Some (JStr t) \<Rightarrow> trim t | _ \<Rightarrow> [])"
    using trimmed_member_Inr [OF l] result by simp
  moreover have "explanation result =
          (case get_prop (Some parsed) (js ''explanation'') of Some (JStr t) \<Rightarrow> trim t | _ \<Rightarrow> [])"
    using trimmed_member_Inr [OF e] result by simp
  ultimately show "\<exists>parsed. JSON_parse text = Some parsed \<and>
         latex result =
           (case get_prop (Some parsed) (js ''latex'') of Some (JStr t) \<Rightarrow> trim t | _ \<Rightarrow> []) \<and>
         explanation result =
           (case get_prop (Some parsed) (js ''explanation'') of
              Some (JStr t) \<Rightarrow> trim t | _ \<Rightarrow> [])"
    using parsed by blast
qed

theorem parseFormulaJson_failures_witness:
  "(\<lambda>t. None :: json option) (js ''The formula is x squared.'') = None \<and>
   parseFormulaJson (\<lambda>t. None) (js ''The formula is x squared.'')
     \<lparr>localStorage = None, network = [], trace = []\<rparr> =
     (Inl (Error UNEXPECTED_FORMAT_MESSAGE),
      \<lparr>localStorage = None, network = [],
       trace = [ConsoleError PARSE_FAILED_MESSAGE SyntaxError (js ''The formula is x squared.'')]\<rparr>) \<and>
   map_of [(js ''latex'', JObj [(js ''trim'', JNum (js ''1''))])] (js ''latex'') =
     Some (JObj [(js ''trim'', JNum (js ''1''))]) \<and>
   map_of [(js ''trim'', JNum (js ''1''))] (js ''trim'') = Some (JNum (js ''1'')) \<and>
   JNum (js ''1'') \<noteq> JNull \<and>
   parseFormulaJson (\<lambda>t. Some (JObj [(js ''latex'', JObj [(js ''trim'', JNum (js ''1''))])]))
     ((js ''{'' @ [34] @ js ''latex'' @ [34] @ js '':{'' @ [34] @ js ''trim'' @ [34] @ js '':1}}''))
     \<lparr>localStorage = None, network = [], trace = []\<rparr> =
     (Inl (Error UNEXPECTED_FORMAT_MESSAGE),
      \<lparr>localStorage = None, network = [],
       trace = [ConsoleError PARSE_FAILED_MESSAGE TypeError ((js ''{'' @ [34] @ js ''latex'' @ [34] @ js '':{'' @ [34] @ js ''trim'' @ [34] @ js '':1}}''))]\<rparr>)"
proof -
  have "parseFormulaJson (\<lambda>t. None) (js ''The formula is x squared.'')
          \<lparr>localStorage = None, network = [], trace = []\<rparr> =
        (Inl (Error UNEXPECTED_FORMAT_MESSAGE),
         console_error PARSE_FAILED_MESSAGE SyntaxError (js ''The formula is x squared.'')
           \<lparr>localStorage = None, network = [], trace = []\<rparr>)"
    by (rule parseFormulaJson_failures
          [of "\<lambda>t. None" "js ''The formula is x squared.''"
              "\<lparr>localStorage = None, network = [], trace = []\<rparr>",
           THEN conjunct1, THEN mp])
      simp
  moreover have "parseFormulaJson
          (\<lambda>t. Some (JObj [(js ''latex'', JObj [(js ''trim'', JNum (js ''1''))])]))
          ((js ''{'' @ [34] @ js ''latex'' @ [34] @ js '':{'' @ [34] @ js ''trim'' @ [34] @ js '':1}}''))
          \<lparr>localStorage = None, network = [], trace = []\<rparr> =
        (Inl (Error UNEXPECTED_FORMAT_MESSAGE),
         console_error PARSE_FAILED_MESSAGE TypeError ((js ''{'' @ [34] @ js ''latex'' @ [34] @ js '':{'' @ [34] @ js ''trim'' @ [34] @ js '':1}}''))
           \<lparr>localStorage = None, network = [], trace = []\<rparr>)"
    by (rule parseFormulaJson_failures
          [of "\<lambda>t. Some (JObj [(js ''latex'', JObj [(js ''trim'', JNum (js ''1''))])])"
              "js ''{'' @ [34] @ js ''latex'' @ [34] @ js '':{'' @ [34] @ js ''trim'' @ [34] @ js '':1}}''"
              "\<lparr>localStorage = None, network = [], trace = []\<rparr>",
           THEN conjunct2, THEN conjunct2, THEN conjunct1, THEN spec, THEN spec, THEN spec, THEN mp,
           of "[(js ''latex'', JObj [(js ''trim'', JNum (js ''1''))])]"
              "[(js ''trim'', JNum (js ''1''))]" "JNum (js ''1'')"])
      simp
  ultimately show ?thesis
    by (simp add: console_error_def)
qed

text \<open>
  C5 as stated fails on JSON that lacks a field. The text
  \<^verbatim>\<open>{"latex":" $$x$$ "}\<close> parses, as \<open>JSON.parse\<close> does it, to an object with the one
  member \<open>latex\<close>; \<open>parseFormulaJson\<close> does not fail on it but returns a result with the
  trimmed \<open>latex\<close> and the empty \<open>explanation\<close>.
\<close>

theorem parseFormulaJson_partial_counterexample:
  "parseFormulaJson
     (\<lambda>t. if t = js ''{'' @ [34] @ js ''latex'' @ [34] @ js '':'' @ [34] @ js '' $$x$$ '' @ [34] @ js ''}''
          then Some (JObj [(js ''latex'', JStr (js '' $$x$$ ''))]) else None)
     (js ''{'' @ [34] @ js ''latex'' @ [34] @ js '':'' @ [34] @ js '' $$x$$ '' @ [34] @ js ''}'')
     \<lparr>localStorage = None, network = [], trace = []\<rparr> =
   (Inr \<lparr>latex = js ''$$x$$'', explanation = []\<rparr>,
    \<lparr>localStorage = None, network = [], trace = []\<rparr>)"
proof -
  have "trim (js '' $$x$$ '') = js ''$$x$$''"
    by (simp add: trim_def js_def is_whitespace_def)
  moreover have "js ''latex'' \<noteq> js ''explanation''"
    by (simp add: js_def)
  ultimately show ?thesis
    by (simp add: parseFormulaJson_def trimmed_member_def)
qed

section \<open>Properties of the PDF text extractor\<close>

lemma extractPdfText_loop_blocks:
  "1 \<le> pageNum \<Longrightarrow>
   extractPdfText_loop pdf pageNum fullText =
     fullText @
     concat (map (\<lambda>k. js ''\<newline>\<newline>[Page '' @ decimal k @ js '']\<newline>'' @
                        join (js '' '') (pdf ! (k - 1)))
               [pageNum..<Suc (length pdf)])"
proof (induction pdf pageNum fullText rule: extractPdfText_loop.induct)
  case (1 pdf pageNum fullText)
  show ?case
  proof (cases "pageNum \<le> length pdf")
    case False
    then show ?thesis
      by (subst extractPdfText_loop.simps) simp
  next
    case True
    then have "[pageNum..<Suc (length pdf)] = pageNum # [Suc pageNum..<Suc (length pdf)]"
      by (simp add: upt_conv_Cons)
    moreover have "extractPdfText_loop pdf pageNum fullText =
        extractPdfText_loop pdf (pageNum + 1)
          (fullText @ js ''\<newline>\<newline>[Page '' @ decimal pageNum @ js '']\<newline>'' @
           join (js '' '') (pdf ! (pageNum - 1)))"
      using True by (subst extractPdfText_loop.simps) (simp add: Let_def)
    ultimately show ?thesis
      using "1.IH" [OF True refl refl] by simp
  qed
qed

text \<open>
  C6. For every document that opens, with \<open>N\<close> pages, \<open>extractPdfText\<close> returns
  \<open>pages = N\<close> and, as text, the trimmed concatenation, for \<open>k\<close> from 1 to \<open>N\<close> in
  this order, of the blocks made of the marker \<open>[Page k]\<close> and the text items of page
  \<open>k\<close> joined by single spaces. For three pages with the texts A, B and C the text is
  the three markers in the order 1, 2, 3, each followed by its page's text.
\<close>

theorem extractPdfText_pages:
  assumes "atob (base64_payload base64) = Some data"
    and "getDocument (map (\<lambda>c. c mod 256) data) = Some pdf"
  shows "extractPdfText atob getDocument base64 =
           Inr \<lparr>pdf_text =
                  trim (concat (map (\<lambda>k. js ''\<newline>\<newline>[Page '' @ decimal k @ js '']\<newline>'' @
                                          join (js '' '') (pdf ! (k - 1)))
                                 [1..<Suc (length pdf)])),
                pages = length pdf\<rparr> \<and>
         (pdf = [[js ''A''], [js ''B''], [js ''C'']] \<longrightarrow>
            extractPdfText atob getDocument base64 =
              Inr \<lparr>pdf_text =
                     js ''[Page 1]\<newline>A\<newline>\<newline>[Page 2]\<newline>B\<newline>\<newline>[Page 3]\<newline>C'',
                   pages = 3\<rparr>)"
proof -
  have general: "extractPdfText atob getDocument base64 =
           Inr \<lparr>pdf_text =
                  trim (concat (map (\<lambda>k. js ''\<newline>\<newline>[Page '' @ decimal k @ js '']\<newline>'' @
                                          join (js '' '') (pdf ! (k - 1)))
                                 [1..<Suc (length pdf)])),
                pages = length pdf\<rparr>"
    using assms extractPdfText_loop_blocks [of 1 pdf "[]"]
    by (simp add: extractPdfText_def Let_def)
  have digits: "decimal (Suc 0) = js ''1''" "decimal 2 = js ''2''" "decimal 3 = js ''3''"
    by (subst decimal.simps, simp add: js_def)+
  have pages: "[1..<Suc (length [[js ''A''], [js ''B''], [js ''C'']])] = [1, 2, 3]"
    by (simp add: upt_conv_Cons)
  have blocks:
    "trim (concat (map (\<lambda>k. js ''\<newline>\<newline>[Page '' @ decimal k @ js '']\<newline>'' @
                              join (js '' '') ([[js ''A''], [js ''B''], [js ''C'']] ! (k - 1)))
                     [1, 2, 3])) =
     js ''[Page 1]\<newline>A\<newline>\<newline>[Page 2]\<newline>B\<newline>\<newline>[Page 3]\<newline>C''"
    by (simp add: digits) (simp add: trim_def js_def is_whitespace_def)
  show ?thesis
  proof (intro conjI impI)
    show "extractPdfText atob getDocument base64 =
           Inr \<lparr>pdf_text =
                  trim (concat (map (\<lambda>k. js ''\<newline>\<newline>[Page '' @ decimal k @ js '']\<newline>'' @
                                          join (js '' '') (pdf ! (k - 1)))
                                 [1..<Suc (length pdf)])),
                pages = length pdf\<rparr>"
      by (rule general)
  next
    assume three: "pdf = [[js ''A''], [js ''B''], [js ''C'']]"
    have "extractPdfText atob getDocument base64 =
           Inr \<lparr>pdf_text =
                  trim (concat (map (\<lambda>k. js ''\<newline>\<newline>[Page '' @ decimal k @ js '']\<newline>'' @
                                          join (js '' '') ([[js ''A''], [js ''B''], [js ''C'']] ! (k - 1)))
                                 [1..<Suc (length [[js ''A''], [js ''B''], [js ''C'']])])),
                pages = length [[js ''A''], [js ''B''], [js ''C'']]\<rparr>"
      using general unfolding three .
    then show "extractPdfText atob getDocument base64 =
              Inr \<lparr>pdf_text =
                     js ''[Page 1]\<newline>A\<newline>\<newline>[Page 2]\<newline>B\<newline>\<newline>[Page 3]\<newline>C'',
                   pages = 3\<rparr>"
      by (simp only: pages blocks) simp
  qed
qed

theorem extractPdfText_pages_witness:
  "(\<lambda>s. Some (js ''%PDF-1.7'')) (base64_payload (js ''data:application/pdf;base64,JVBERi0xLjc='')) =
     Some (js ''%PDF-1.7'') \<and>
   (\<lambda>bytes. Some [[js ''A''], [js ''B''], [js ''C'']]) (map (\<lambda>c. c mod 256) (js ''%PDF-1.7'')) =
     Some [[js ''A''], [js ''B''], [js ''C'']] \<and>
   extractPdfText (\<lambda>s. Some (js ''%PDF-1.7'')) (\<lambda>bytes. Some [[js ''A''], [js ''B''], [js ''C'']])
     (js ''data:application/pdf;base64,JVBERi0xLjc='') =
     Inr \<lparr>pdf_text =
            js ''[Page 1]\<newline>A\<newline>\<newline>[Page 2]\<newline>B\<newline>\<newline>[Page 3]\<newline>C'',
          pages = 3\<rparr>"
proof -
  have "extractPdfText (\<lambda>s. Some (js ''%PDF-1.7'')) (\<lambda>bytes. Some [[js ''A''], [js ''B''], [js ''C'']])
          (js ''data:application/pdf;base64,JVBERi0xLjc='') =
        Inr \<lparr>pdf_text =
               js ''[Page 1]\<newline>A\<newline>\<newline>[Page 2]\<newline>B\<newline>\<newline>[Page 3]\<newline>C'',
             pages = 3\<rparr>"
    by (rule extractPdfText_pages
          [of "\<lambda>s. Some (js ''%PDF-1.7'')" "js ''data:application/pdf;base64,JVBERi0xLjc=''"
              "js ''%PDF-1.7''" "\<lambda>bytes. Some [[js ''A''], [js ''B''], [js ''C'']]"
              "[[js ''A''], [js ''B''], [js ''C'']]", THEN conjunct2, THEN mp])
      simp_all
  then show ?thesis
    by simp
qed

section \<open>Properties of the history store\<close>

lemma distinct_ids_filter:
  "distinct (map id' items) \<Longrightarrow> distinct (map id' (filter keep items))"
  by (induction items) auto

text \<open>
  C7. \<open>saveToHistory\<close> puts the new item at the front and keeps, in their order,
  exactly the entries of the old list whose id differs from the new item's: every
  earlier entry with that id is gone, the new list has one entry with that id, and a
  list with one entry per id stays a list with one entry per id. The same list is both
  set as state and written to storage.
\<close>

theorem saveToHistory_replaces:
  "history (saveToHistory item st) = item # filter (\<lambda>h. id' h \<noteq> id' item) (history st) \<and>
   mathsnap_history (saveToHistory item st) = Some (history (saveToHistory item st)) \<and>
   hd (history (saveToHistory item st)) = item \<and>
   (\<forall>h \<in> set (tl (history (saveToHistory item st))). id' h \<noteq> id' item) \<and>
   length (filter (\<lambda>h. id' h = id' item) (history (saveToHistory item st))) = 1 \<and>
   filter (\<lambda>h. id' h \<noteq> id' item) (history (saveToHistory item st)) =
     filter (\<lambda>h. id' h \<noteq> id' item) (history st) \<and>
   (distinct (map id' (history st)) \<longrightarrow>
      distinct (map id' (history (saveToHistory item st))))"
proof -
  have new: "history (saveToHistory item st) =
               item # filter (\<lambda>h. id' h \<noteq> id' item) (history st)"
    by (simp add: saveToHistory_def Let_def)
  have "filter (\<lambda>h. id' h = id' item) (filter (\<lambda>h. id' h \<noteq> id' item) (history st)) = []"
    by (simp add: filter_empty_conv)
  moreover have "distinct (map id' (history st)) \<longrightarrow>
                 distinct (map id' (item # filter (\<lambda>h. id' h \<noteq> id' item) (history st)))"
    using distinct_ids_filter [of "history st" "\<lambda>h. id' h \<noteq> id' item"] by auto
  moreover have "mathsnap_history (saveToHistory item st) = Some (history (saveToHistory item st))"
    by (simp add: saveToHistory_def Let_def)
  ultimately show ?thesis
    unfolding new by simp
qed

theorem saveToHistory_replaces_witness:
  "distinct (map id'
     [\<lparr>id' = js ''1700000000002'', type' = ChartItem, fileName = None, timestamp' = 2,
       content' = Note (js ''a chart''), sourcePreview = None\<rparr>,
      \<lparr>id' = js ''1700000000001'', type' = NoteItem, fileName = Some (js ''paper.pdf''),
       timestamp' = 1, content' = Note (js ''old note''), sourcePreview = None\<rparr>]) \<and>
   history (saveToHistory
      \<lparr>id' = js ''1700000000001'', type' = NoteItem, fileName = Some (js ''paper.pdf''),
       timestamp' = 3, content' = Note (js ''new note''), sourcePreview = None\<rparr>
      \<lparr>history =
         [\<lparr>id' = js ''1700000000002'', type' = ChartItem, fileName = None, timestamp' = 2,
           content' = Note (js ''a chart''), sourcePreview = None\<rparr>,
          \<lparr>id' = js ''1700000000001'', type' = NoteItem, fileName = Some (js ''paper.pdf''),
           timestamp' = 1, content' = Note (js ''old note''), sourcePreview = None\<rparr>],
       mathsnap_history = None\<rparr>) =
     [\<lparr>id' = js ''1700000000001'', type' = NoteItem, fileName = Some (js ''paper.pdf''),
       timestamp' = 3, content' = Note (js ''new note''), sourcePreview = None\<rparr>,
      \<lparr>id' = js ''1700000000002'', type' = ChartItem, fileName = None, timestamp' = 2,
       content' = Note (js ''a chart''), sourcePreview = None\<rparr>] \<and>
   distinct (map id' (history (saveToHistory
      \<lparr>id' = js ''1700000000001'', type' = NoteItem, fileName = Some (js ''paper.pdf''),
       timestamp' = 3, content' = Note (js ''new note''), sourcePreview = None\<rparr>
      \<lparr>history =
         [\<lparr>id' = js ''1700000000002'', type' = ChartItem, fileName = None, timestamp' = 2,
           content' = Note (js ''a chart''), sourcePreview = None\<rparr>,
          \<lparr>id' = js ''1700000000001'', type' = NoteItem, fileName = Some (js ''paper.pdf''),
           timestamp' = 1, content' = Note (js ''old note''), sourcePreview = None\<rparr>],
       mathsnap_history = None\<rparr>)))"
  using saveToHistory_replaces
    [of "\<lparr>id' = js ''1700000000001'', type' = NoteItem, fileName = Some (js ''paper.pdf''),
          timestamp' = 3, content' = Note (js ''new note''), sourcePreview = None\<rparr>"
        "\<lparr>history =
           [\<lparr>id' = js ''1700000000002'', type' = ChartItem, fileName = None, timestamp' = 2,
             content' = Note (js ''a chart''), sourcePreview = None\<rparr>,
            \<lparr>id' = js ''1700000000001'', type' = NoteItem, fileName = Some (js ''paper.pdf''),
             timestamp' = 1, content' = Note (js ''old note''), sourcePreview = None\<rparr>],
          mathsnap_history = None\<rparr>"]
  by (simp add: js_def)

end
